theory Spec2Isabelle
  imports Main
begin

section \<open>Strings and numbers of the host language\<close>

text \<open>
  Strings are \<open>char list\<close>. The source file is UTF-8; the three non-ASCII sequences that
  occur in its template literals are kept as the bytes the file holds. White space and
  case mapping are modelled on ASCII.
\<close>

definition isWhiteSpace :: "char \<Rightarrow> bool" where
  "isWhiteSpace c \<longleftrightarrow> c \<in> {CHR 0x09, CHR 0x0A, CHR 0x0B, CHR 0x0C, CHR 0x0D, CHR 0x20}"

text \<open>\<open>String.prototype.trim\<close>: white space is removed at both ends.\<close>

definition trim :: "string \<Rightarrow> string" where
  "trim s = rev (dropWhile isWhiteSpace (rev (dropWhile isWhiteSpace s)))"

text \<open>\<open>str.replace(/c/g, r)\<close> for a one-character pattern.\<close>

fun replaceAll :: "char \<Rightarrow> string \<Rightarrow> string \<Rightarrow> string" where
  "replaceAll c r [] = []"
| "replaceAll c r (x # xs) = (if x = c then r @ replaceAll c r xs else x # replaceAll c r xs)"

definition toUpperCase :: "char \<Rightarrow> char" where
  "toUpperCase c =
     (if 97 \<le> (of_char c :: nat) \<and> (of_char c :: nat) \<le> 122
      then char_of ((of_char c :: nat) - 32) else c)"

definition digitChar :: "nat \<Rightarrow> char" where
  "digitChar d = ''0123456789'' ! d"

text \<open>\<open>Number.prototype.toString\<close> on a non-negative integer: its decimal digits.\<close>

fun natToString :: "nat \<Rightarrow> string" where
  "natToString n = (if n < 10 then [digitChar n] else natToString (n div 10) @ [digitChar (n mod 10)])"

declare natToString.simps [simp del]

definition numToString :: "int \<Rightarrow> string" where
  "numToString i = (if i < 0 then CHR ''-'' # natToString (nat (- i)) else natToString (nat i))"

definition isDigit :: "char \<Rightarrow> bool" where
  "isDigit c \<longleftrightarrow> 48 \<le> (of_char c :: nat) \<and> (of_char c :: nat) \<le> 57"

definition digitsValue :: "string \<Rightarrow> nat" where
  "digitsValue ds = foldl (\<lambda>a c. 10 * a + (of_char c - 48)) 0 ds"

text \<open>
  \<open>parseInt(s, 10)\<close>: leading white space is skipped, one sign is read, then the longest
  run of decimal digits; no digit gives \<open>NaN\<close>, which is \<open>None\<close> here. What follows the
  digits is ignored.
\<close>

definition parseInt :: "string \<Rightarrow> int option" where
  "parseInt s =
     (let t = dropWhile isWhiteSpace s;
          neg = (t \<noteq> [] \<and> hd t = CHR ''-'');
          u = (if t \<noteq> [] \<and> (hd t = CHR ''-'' \<or> hd t = CHR ''+'') then tl t else t);
          ds = takeWhile isDigit u
      in if ds = [] then None
         else Some (if neg then - int (digitsValue ds) else int (digitsValue ds)))"

section \<open>The interfaces\<close>

record AcademicSection =
  idA :: string
  subjectA :: string
  staarProficient :: string
  staarDeficits :: string
  progressDataSources :: "string list"
  currentData :: string
  performanceComparison :: string
  noProgressReason :: string
  readingFluency :: string
  readingComprehension :: string
  mathProblemSolving :: string
  supportsPerformance :: string
  classroomStrengths :: string
  classroomDeficits :: string
  deficitsEvidence :: string
  withSupports :: string
  withoutSupports :: string
  peerComparisonGradeLevel :: string
  peerComparisonStudent :: string
  benchmarkPercentile :: string
  peerBenchmarkPercentile :: string
  strengthsDespiteDeficits :: string
  criticalNeeds :: string
  independentAccessImpact :: string

record PerformanceSummarySection =
  idS :: string
  subjectS :: string
  passedStateAssessment :: string
  taksScore :: string
  rawScore :: string
  percentCorrect :: string
  gradeInSubject :: string
  accommodationsS :: string
  needs :: string
  receivesSpecialEdSupport :: string
  strengths :: string

record PlaafpData =
  studentName :: string
  grade :: string
  disabilities :: string
  subjects :: string
  cognitiveDeficits :: string
  academicDeficits :: string
  disabilityImpact :: string
  deficitType :: string
  specialEdSupport :: string
  relatedServices :: string
  accommodations :: string
  academicSections :: "AcademicSection list"
  performanceSummarySections :: "PerformanceSummarySection list"
  functionalStrengths :: string
  functionalDeficits :: string
  functionalDataSource :: string
  functionalImpact :: string
  transitionStrengths :: string
  transitionSupportNeeds :: string
  transitionIndependentLiving :: string
  transitionSchedules :: string
  transitionResponsibility :: string
  transitionParticipation :: string
  transitionEmploymentGoal :: string
  parentEmploymentPlan :: string
  parentEmploymentGoal :: string
  parentLivingPlan :: string
  parentName :: string

text \<open>\<open>{ id, ...initialAcademicSection }\<close>: the template with the identifier put in.\<close>

definition initialAcademicSection :: "string \<Rightarrow> AcademicSection" where
  "initialAcademicSection i =
     \<lparr>idA = i, subjectA = [], staarProficient = [], staarDeficits = [],
      progressDataSources = [], currentData = [], performanceComparison = [],
      noProgressReason = [], readingFluency = [], readingComprehension = [],
      mathProblemSolving = [], supportsPerformance = [], classroomStrengths = [],
      classroomDeficits = [], deficitsEvidence = [], withSupports = [],
      withoutSupports = [], peerComparisonGradeLevel = [], peerComparisonStudent = [],
      benchmarkPercentile = [], peerBenchmarkPercentile = [],
      strengthsDespiteDeficits = [], criticalNeeds = [], independentAccessImpact = []\<rparr>"

definition initialPerformanceSummarySection :: "string \<Rightarrow> PerformanceSummarySection" where
  "initialPerformanceSummarySection i =
     \<lparr>idS = i, subjectS = [], passedStateAssessment = [], taksScore = [], rawScore = [],
      percentCorrect = [], gradeInSubject = [], accommodationsS = [], needs = [],
      receivesSpecialEdSupport = [], strengths = []\<rparr>"

definition initialPlaafpData :: PlaafpData where
  "initialPlaafpData =
     \<lparr>studentName = [], grade = [], disabilities = [], subjects = [],
      cognitiveDeficits = [], academicDeficits = [], disabilityImpact = [],
      deficitType = [], specialEdSupport = [], relatedServices = [],
      accommodations = [], academicSections = [], performanceSummarySections = [],
      functionalStrengths = [], functionalDeficits = [], functionalDataSource = [],
      functionalImpact = [], transitionStrengths = [], transitionSupportNeeds = [],
      transitionIndependentLiving = [], transitionSchedules = [],
      transitionResponsibility = [], transitionParticipation = [],
      transitionEmploymentGoal = [], parentEmploymentPlan = [],
      parentEmploymentGoal = [], parentLivingPlan = [], parentName = []\<rparr>"

section \<open>Helper functions\<close>

definition fill :: "string \<Rightarrow> string \<Rightarrow> string" where
  "fill v placeholder = (if trim v \<noteq> [] then trim v else ''('' @ placeholder @ '')'')"

definition fillPronoun :: "string \<Rightarrow> string \<Rightarrow> string" where
  "fillPronoun name pronoun = (if trim name \<noteq> [] then pronoun else ''he/she'')"

text \<open>The second parameter of \<open>fillPossessive\<close> is not used by the source either.\<close>

definition fillPossessive :: "string \<Rightarrow> string \<Rightarrow> string" where
  "fillPossessive name pronoun = (if trim name \<noteq> [] then name @ [CHR 0x27, CHR ''s''] else ''______'' @ [CHR 0x27, CHR ''s''])"

section \<open>The template renderer\<close>

text \<open>
  \<open>sanitize\<close> is the three replacements of the source, in its order. Replacing \<open>&\<close>
  first keeps the ampersands of the two later replacements unescaped.
\<close>

definition sanitize :: "string \<Rightarrow> string" where
  "sanitize str = replaceAll CHR ''>'' ''&gt;'' (replaceAll CHR ''<'' ''&lt;'' (replaceAll CHR ''&'' ''&amp;'' str))"

definition dq :: string where
  "dq = [CHR 0x22]"

definition editableSpan :: "string \<Rightarrow> string \<Rightarrow> string option \<Rightarrow> nat option \<Rightarrow> string" where
  "editableSpan fld v sectionTy idx =
     (let indexAttr = (case idx of Some i \<Rightarrow> ''data-index='' @ dq @ natToString i @ dq | None \<Rightarrow> []);
          sectionAttr = (case sectionTy of Some t \<Rightarrow> ''data-section-type='' @ dq @ t @ dq | None \<Rightarrow> []);
          sanitizedValue = sanitize v
      in ''<span class='' @ dq @ ''editable-field'' @ dq @ '' data-field='' @ dq @ fld @ dq @ '' ''
           @ indexAttr @ '' '' @ sectionAttr @ ''>'' @ sanitizedValue @ ''</span>'')"

text \<open>
  A template literal is a sequence of pieces: a chunk of the template itself (\<open>Lit\<close>), an
  interpolation passed through \<open>sanitize\<close> (\<open>Esc\<close>), an interpolation inserted as it is
  (\<open>Raw\<close>), and a call of \<open>editableSpan\<close> (\<open>Span\<close>, with the call's four arguments).
  The string the literal evaluates to is the concatenation of the pieces' markup.
\<close>

datatype piece =
    Lit string
  | Esc string
  | Raw string
  | Span string string "string option" "nat option"

fun pieceHtml :: "piece \<Rightarrow> string" where
  "pieceHtml (Lit s) = s"
| "pieceHtml (Esc s) = sanitize s"
| "pieceHtml (Raw s) = s"
| "pieceHtml (Span fld v sectionTy idx) = editableSpan fld v sectionTy idx"

definition partHtml :: "piece list \<Rightarrow> string" where
  "partHtml ps = concat (map pieceHtml ps)"

text \<open>The three non-ASCII sequences of the template, as the bytes of the source file.\<close>

definition apostropheBytes :: string where
  "apostropheBytes = [CHR 0xE2, CHR 0x80, CHR 0x9A, CHR 0xC3, CHR 0x84, CHR 0xC3, CHR 0xB4]"

definition checkboxBytes :: string where
  "checkboxBytes = [CHR 0xE2, CHR 0x80, CHR 0x9A, CHR 0xC3, CHR 0xB2, CHR 0xC3, CHR 0xAA]"

definition dashBytes :: string where
  "dashBytes = [CHR 0xE2, CHR 0x80, CHR 0x9A, CHR 0xC3, CHR 0x84, CHR 0xC3, CHR 0xAE]"

text \<open>\<open>const studentName = data.studentName || '______ (student name)'\<close>, and the same for the parent.\<close>

definition studentNameOr :: "PlaafpData \<Rightarrow> string" where
  "studentNameOr d = (if studentName d \<noteq> [] then studentName d else ''______ (student name)'')"

definition parentNameOr :: "PlaafpData \<Rightarrow> string" where
  "parentNameOr d = (if parentName d \<noteq> [] then parentName d else ''______ (parent name)'')"

text \<open>\<open>data.deficitType.charAt(0).toUpperCase() + data.deficitType.slice(1)\<close>, or the two boxes.\<close>

definition deficitTypeText :: "PlaafpData \<Rightarrow> string" where
  "deficitTypeText d =
     (case deficitType d of
        [] \<Rightarrow> checkboxBytes @ '' normative '' @ checkboxBytes @ '' relative''
      | c # cs \<Rightarrow> toUpperCase c # cs)"

definition introParts :: "PlaafpData \<Rightarrow> piece list list" where
  "introParts d =
    [[Lit ''<strong>Introductory Paragraph</strong>''],
     [Lit ''<p>'', Span ''studentName'' (studentNameOr d) None None,
      Lit '' is a '', Span ''grade'' (fill (grade d) ''grade'') None None,
      Lit '' grade student diagnosed with a '',
      Span ''disabilities'' (fill (disabilities d) ''disability(ies)'') None None,
      Lit '' disability(ies). '', Esc (studentNameOr d),
      Lit '' is currently receiving enrolled grade-level instruction in '',
      Span ''subjects'' (fill (subjects d) ''subjects/courses'') None None,
      Lit '' in the general education classroom. '',
      Esc (fillPossessive (studentName d) (studentNameOr d)),
      Lit '' full individual evaluation indicates that '',
      Raw (fillPronoun (studentName d) ''he/she''),
      Lit '' has cognitive deficits in '',
      Span ''cognitiveDeficits'' (fill (cognitiveDeficits d) ''cognitive areas'') None None,
      Lit '' and academic deficits in '',
      Span ''academicDeficits'' (fill (academicDeficits d) ''academic areas'') None None,
      Lit ''.</p>''],
     [Lit (''<p>The student'' @ apostropheBytes @ ''s disability affects their ability to ''),
      Span ''disabilityImpact'' (fill (disabilityImpact d) ''describe impact on access/progress'') None None,
      Lit ''. These deficits are noted as '', Raw (deficitTypeText d),
      Lit '' according to cognitive and achievement assessments.</p>''],
     [Lit ''<p>Currently, '', Esc (studentNameOr d), Lit '' receives '',
      Span ''specialEdSupport'' (fill (specialEdSupport d) ''special education/resource support'') None None,
      Lit '' and '', Span ''relatedServices'' (fill (relatedServices d) ''related services'') None None,
      Lit '' with accommodations including '',
      Span ''accommodations'' (fill (accommodations d) ''list of accommodations'') None None,
      Lit ''.</p>'']]"

text \<open>The body of \<open>data.academicSections.forEach((section, index) => ...)\<close>: five parts.\<close>

definition academicParts :: "PlaafpData \<Rightarrow> AcademicSection \<Rightarrow> nat \<Rightarrow> piece list list" where
  "academicParts d section index =
    [[Lit ''<strong>Academics: '',
      Esc (if subjectA section \<noteq> [] then subjectA section
           else ''(Subject '' @ natToString (index + 1) @ '')''),
      Lit ''</strong>''],
     [Lit ''<p>On the spring STAAR '',
      Span ''subject'' (fill (subjectA section) ''subject/course'') (Some ''academic'') (Some index),
      Lit '' assessment, '', Esc (studentNameOr d), Lit '' was relatively proficient in '',
      Span ''staarProficient'' (fill (staarProficient section) ''TEKS Student Expectations'') (Some ''academic'') (Some index),
      Lit ''. '', Esc (studentNameOr d), Lit '' demonstrated deficits in '',
      Span ''staarDeficits'' (fill (staarDeficits section) ''Student Essential Outcome or TEKS'') (Some ''academic'') (Some index),
      Lit ''.</p>''],
     [Lit ''<p>Baseline data shows that '', Esc (studentNameOr d), Lit '' performs at '',
      Span ''readingFluency'' (fill (readingFluency section) ''score/percentile'') (Some ''academic'') (Some index),
      Lit '' in reading fluency, '',
      Span ''readingComprehension'' (fill (readingComprehension section) ''score/percentile'') (Some ''academic'') (Some index),
      Lit '' in reading comprehension, and '',
      Span ''mathProblemSolving'' (fill (mathProblemSolving section) ''score/percentile'') (Some ''academic'') (Some index),
      Lit '' in math problem-solving.</p>''],
     [Lit ''<p>In the classroom setting, '', Esc (studentNameOr d), Lit '' is able to '',
      Span ''classroomStrengths'' (fill (classroomStrengths section) ''strengths'') (Some ''academic'') (Some index),
      Lit ''. However, '', Raw (fillPronoun (studentName d) ''he/she''),
      Lit '' demonstrates deficits in the classroom in '',
      Span ''classroomDeficits'' (fill (classroomDeficits section) (''needs'' @ dashBytes @ ''aligned with STAAR weak areas'')) (Some ''academic'') (Some index),
      Lit '', as evidenced by '',
      Span ''deficitsEvidence'' (fill (deficitsEvidence section) ''work samples, CBM, rubrics'') (Some ''academic'') (Some index),
      Lit ''.</p>''],
     [Lit ''<p>Critical areas of need remain '',
      Span ''criticalNeeds'' (fill (criticalNeeds section) ''area'') (Some ''academic'') (Some index),
      Lit '', which affect independent access to the grade-level curriculum.</p>'']]"

definition functionalParts :: "PlaafpData \<Rightarrow> piece list list" where
  "functionalParts d =
    [[Lit ''<strong>Functional</strong>''],
     [Lit ''<p>According to '',
      Span ''functionalDataSource'' (fill (functionalDataSource d) ''teacher information, observation, etc.'') None None,
      Lit '', '', Esc (studentNameOr d), Lit '' has strengths in '',
      Span ''functionalStrengths'' (fill (functionalStrengths d) ''functional strengths'') None None,
      Lit ''. However, according to the same sources, '', Esc (studentNameOr d),
      Lit '' has deficits in '',
      Span ''functionalDeficits'' (fill (functionalDeficits d) ''functional deficits and data'') None None,
      Lit ''. At this time, these functional deficits are negatively impacting '',
      Esc (fillPossessive (studentName d) (studentNameOr d)),
      Lit '' rate of progress by '',
      Span ''functionalImpact'' (fill (functionalImpact d) ''describe impact'') None None,
      Lit ''.</p>'']]"

definition transitionParts :: "PlaafpData \<Rightarrow> piece list list" where
  "transitionParts d =
    [[Lit ''<strong>Transition (Secondary)</strong>''],
     [Lit ''<p>According to teacher survey and classroom observation, '', Esc (studentNameOr d),
      Lit '' was relatively proficient in '',
      Span ''transitionStrengths'' (fill (transitionStrengths d) ''strengths - Life Skills, Community experiences, etc.'') None None,
      Lit ''. In order to progress in independent living, employment, post-secondary educational training, and community experiences '',
      Esc (studentNameOr d), Lit '' will need support in '',
      Span ''transitionSupportNeeds'' (fill (transitionSupportNeeds d) ''support areas'') None None,
      Lit ''.</p>''],
     [Lit ''<p>'', Esc (studentNameOr d), Lit '' would like to work in the '',
      Span ''transitionEmploymentGoal'' (fill (transitionEmploymentGoal d) ''area of employment'') None None,
      Lit '' after high school.</p>''],
     [Lit ''<p>'', Span ''parentName'' (parentNameOr d) None None,
      Lit '' plans for him/her to work '',
      Span ''parentEmploymentPlan'' (fill (parentEmploymentPlan d) ''full or part'') None None,
      Lit '' time when he/she graduates. '', Span ''parentName'' (parentNameOr d) None None,
      Lit '' would like to see '', Esc (studentNameOr d), Lit '' work in '',
      Span ''parentEmploymentGoal'' (fill (parentEmploymentGoal d) ''employment area'') None None,
      Lit '' industry after their educational career. '',
      Span ''parentName'' (parentNameOr d) None None,
      Lit '' is planning for '', Esc (studentNameOr d), Lit '' to live '',
      Span ''parentLivingPlan'' (fill (parentLivingPlan d) ''with a friend / independently / at home'') None None,
      Lit '' after educational career.</p>'']]"

text \<open>
  The body of \<open>data.performanceSummarySections.forEach((section, index) => ...)\<close>: one part.
  Its eleventh span is given \<open>section.subject\<close> itself, not \<open>fill(section.subject, ...)\<close>.
\<close>

definition summaryParts :: "PlaafpData \<Rightarrow> PerformanceSummarySection \<Rightarrow> nat \<Rightarrow> piece list list" where
  "summaryParts d section index =
    [[Lit ''<p>'', Esc (studentNameOr d), Lit '' '',
      Span ''passedStateAssessment'' (fill (passedStateAssessment section) ''passed/did not pass'') (Some ''summary'') (Some index),
      Lit '' the '',
      Span ''subject'' (fill (subjectS section) ''subject'') (Some ''summary'') (Some index),
      Lit '' state assessment with a performance of '',
      Span ''taksScore'' (fill (taksScore section) ''TAKS score'') (Some ''summary'') (Some index),
      Lit '', obtaining a raw score of '',
      Span ''rawScore'' (fill (rawScore section) ''raw score'') (Some ''summary'') (Some index),
      Lit '' which was '',
      Span ''percentCorrect'' (fill (percentCorrect section) ''% correct'') (Some ''summary'') (Some index),
      Lit '' correct. '', Esc (studentNameOr d), Lit '' is currently making or made a '',
      Span ''gradeInSubject'' (fill (gradeInSubject section) ''grade in subject'') (Some ''summary'') (Some index),
      Lit ''. '', Esc (studentNameOr d),
      Lit '' requires accommodations/modifications/assistive technology of '',
      Span ''accommodations'' (fill (accommodationsS section) ''accommodations/assist tech'') (Some ''summary'') (Some index),
      Lit '' due to his/her disability and '',
      Span ''needs'' (fill (needs section) ''needs'') (Some ''summary'') (Some index),
      Lit ''. '', Esc (fillPronoun (studentName d) ''He/She''), Lit '' '',
      Span ''receivesSpecialEdSupport'' (fill (receivesSpecialEdSupport section) ''receives/does not receive'') (Some ''summary'') (Some index),
      Lit '' special education support in '',
      Span ''subject'' (subjectS section) (Some ''summary'') (Some index),
      Lit ''. In '',
      Span ''subject'' (fill (subjectS section) ''subject'') (Some ''summary'') (Some index),
      Lit '' '', Esc (studentNameOr d), Lit '' exhibits skills of '',
      Span ''strengths'' (fill (strengths section) ''PLAAFP strengths for subject'') (Some ''summary'') (Some index),
      Lit ''.</p>'']]"

text \<open>\<open>xs.forEach((x, index) => htmlParts.push(...))\<close>, the index counted from \<open>i\<close>.\<close>

fun forEachIndexed :: "('a \<Rightarrow> nat \<Rightarrow> 'b list) \<Rightarrow> nat \<Rightarrow> 'a list \<Rightarrow> 'b list" where
  "forEachIndexed f i [] = []"
| "forEachIndexed f i (x # xs) = f x i @ forEachIndexed f (Suc i) xs"

definition htmlParts :: "PlaafpData \<Rightarrow> piece list list" where
  "htmlParts d =
     introParts d
     @ forEachIndexed (academicParts d) 0 (academicSections d)
     @ functionalParts d
     @ transitionParts d
     @ (if length (performanceSummarySections d) > 0
        then [Lit ''<strong>Summary of Performance</strong>'']
             # forEachIndexed (summaryParts d) 0 (performanceSummarySections d)
        else [])"


section \<open>Records at run time\<close>

text \<open>
  The handlers write fields through computed property names (\<open>{ ...prev, [name]: value }\<close>,
  \<open>(newData as any)[field] = value\<close>), so at run time a record is an object: a finite map
  from property names to values. A property of a section holds a string or an array of
  strings; a property of the document holds a string or an array of sections. The order
  in which an object enumerates its keys is not modelled.
\<close>

datatype pval = PStr string | PArr "string list"

type_synonym sectionObj = "string \<rightharpoonup> pval"

datatype tval = TStr string | TArr "sectionObj list"

type_synonym plaafp = "string \<rightharpoonup> tval"

definition jsonOfAcademic :: "AcademicSection \<Rightarrow> sectionObj" where
  "jsonOfAcademic a =
     [''id'' \<mapsto> PStr (idA a), ''subject'' \<mapsto> PStr (subjectA a),
      ''staarProficient'' \<mapsto> PStr (staarProficient a), ''staarDeficits'' \<mapsto> PStr (staarDeficits a),
      ''progressDataSources'' \<mapsto> PArr (progressDataSources a),
      ''currentData'' \<mapsto> PStr (currentData a),
      ''performanceComparison'' \<mapsto> PStr (performanceComparison a),
      ''noProgressReason'' \<mapsto> PStr (noProgressReason a),
      ''readingFluency'' \<mapsto> PStr (readingFluency a),
      ''readingComprehension'' \<mapsto> PStr (readingComprehension a),
      ''mathProblemSolving'' \<mapsto> PStr (mathProblemSolving a),
      ''supportsPerformance'' \<mapsto> PStr (supportsPerformance a),
      ''classroomStrengths'' \<mapsto> PStr (classroomStrengths a),
      ''classroomDeficits'' \<mapsto> PStr (classroomDeficits a),
      ''deficitsEvidence'' \<mapsto> PStr (deficitsEvidence a),
      ''withSupports'' \<mapsto> PStr (withSupports a),
      ''withoutSupports'' \<mapsto> PStr (withoutSupports a),
      ''peerComparisonGradeLevel'' \<mapsto> PStr (peerComparisonGradeLevel a),
      ''peerComparisonStudent'' \<mapsto> PStr (peerComparisonStudent a),
      ''benchmarkPercentile'' \<mapsto> PStr (benchmarkPercentile a),
      ''peerBenchmarkPercentile'' \<mapsto> PStr (peerBenchmarkPercentile a),
      ''strengthsDespiteDeficits'' \<mapsto> PStr (strengthsDespiteDeficits a),
      ''criticalNeeds'' \<mapsto> PStr (criticalNeeds a),
      ''independentAccessImpact'' \<mapsto> PStr (independentAccessImpact a)]"

definition jsonOfSummary :: "PerformanceSummarySection \<Rightarrow> sectionObj" where
  "jsonOfSummary p =
     [''id'' \<mapsto> PStr (idS p), ''subject'' \<mapsto> PStr (subjectS p),
      ''passedStateAssessment'' \<mapsto> PStr (passedStateAssessment p),
      ''taksScore'' \<mapsto> PStr (taksScore p), ''rawScore'' \<mapsto> PStr (rawScore p),
      ''percentCorrect'' \<mapsto> PStr (percentCorrect p),
      ''gradeInSubject'' \<mapsto> PStr (gradeInSubject p),
      ''accommodations'' \<mapsto> PStr (accommodationsS p), ''needs'' \<mapsto> PStr (needs p),
      ''receivesSpecialEdSupport'' \<mapsto> PStr (receivesSpecialEdSupport p),
      ''strengths'' \<mapsto> PStr (strengths p)]"

definition jsonOf :: "PlaafpData \<Rightarrow> plaafp" where
  "jsonOf d =
     [''studentName'' \<mapsto> TStr (studentName d), ''grade'' \<mapsto> TStr (grade d),
      ''disabilities'' \<mapsto> TStr (disabilities d), ''subjects'' \<mapsto> TStr (subjects d),
      ''cognitiveDeficits'' \<mapsto> TStr (cognitiveDeficits d),
      ''academicDeficits'' \<mapsto> TStr (academicDeficits d),
      ''disabilityImpact'' \<mapsto> TStr (disabilityImpact d),
      ''deficitType'' \<mapsto> TStr (deficitType d),
      ''specialEdSupport'' \<mapsto> TStr (specialEdSupport d),
      ''relatedServices'' \<mapsto> TStr (relatedServices d),
      ''accommodations'' \<mapsto> TStr (accommodations d),
      ''academicSections'' \<mapsto> TArr (map jsonOfAcademic (academicSections d)),
      ''performanceSummarySections'' \<mapsto> TArr (map jsonOfSummary (performanceSummarySections d)),
      ''functionalStrengths'' \<mapsto> TStr (functionalStrengths d),
      ''functionalDeficits'' \<mapsto> TStr (functionalDeficits d),
      ''functionalDataSource'' \<mapsto> TStr (functionalDataSource d),
      ''functionalImpact'' \<mapsto> TStr (functionalImpact d),
      ''transitionStrengths'' \<mapsto> TStr (transitionStrengths d),
      ''transitionSupportNeeds'' \<mapsto> TStr (transitionSupportNeeds d),
      ''transitionIndependentLiving'' \<mapsto> TStr (transitionIndependentLiving d),
      ''transitionSchedules'' \<mapsto> TStr (transitionSchedules d),
      ''transitionResponsibility'' \<mapsto> TStr (transitionResponsibility d),
      ''transitionParticipation'' \<mapsto> TStr (transitionParticipation d),
      ''transitionEmploymentGoal'' \<mapsto> TStr (transitionEmploymentGoal d),
      ''parentEmploymentPlan'' \<mapsto> TStr (parentEmploymentPlan d),
      ''parentEmploymentGoal'' \<mapsto> TStr (parentEmploymentGoal d),
      ''parentLivingPlan'' \<mapsto> TStr (parentLivingPlan d),
      ''parentName'' \<mapsto> TStr (parentName d)]"

text \<open>
  \<open>obj[key] = v\<close> on a plain object. The key \<open>__proto__\<close>, when the object has no own
  property of that name, reaches the accessor of \<open>Object.prototype\<close>, whose setter ignores
  a string: the object keeps its properties.
\<close>

definition assignProp :: "(string \<rightharpoonup> 'v) \<Rightarrow> string \<Rightarrow> 'v \<Rightarrow> (string \<rightharpoonup> 'v)" where
  "assignProp obj key v = (if key = ''__proto__'' \<and> obj key = None then obj else obj(key \<mapsto> v))"

text \<open>
  \<open>xs[index]\<close> for the number \<open>parseInt\<close> returned: \<open>undefined\<close> (\<open>None\<close>) for \<open>NaN\<close>, for a
  negative number and beyond the end; \<open>-0\<close> is position 0.
\<close>

definition resolveIndex :: "nat \<Rightarrow> int option \<Rightarrow> nat option" where
  "resolveIndex len index =
     (case index of None \<Rightarrow> None
      | Some i \<Rightarrow> if 0 \<le> i \<and> i < int len then Some (nat i) else None)"

section \<open>The handlers of the form\<close>

text \<open>\<open>handleChange\<close>: \<open>setData(prev => ({ ...prev, [name]: value }))\<close>.\<close>

definition handleChange :: "string \<Rightarrow> string \<Rightarrow> plaafp \<Rightarrow> plaafp" where
  "handleChange name v prev = prev(name \<mapsto> TStr v)"

text \<open>
  \<open>handleAcademicChange\<close> and \<open>handlePerformanceSummaryChange\<close> copy the list, replace the
  entry at \<open>index\<close> by \<open>{ ...entry, [name]: value }\<close> and store the list. The form calls
  them with the position of an entry it displays; for any other state the result is
  \<open>None\<close>: not modelled.
\<close>

definition changeSection :: "string \<Rightarrow> nat \<Rightarrow> string \<Rightarrow> string \<Rightarrow> plaafp \<Rightarrow> plaafp option" where
  "changeSection key index name v prev =
     (case prev key of
        Some (TArr secs) \<Rightarrow>
          if index < length secs
          then Some (prev(key \<mapsto> TArr (secs[index := (secs ! index)(name \<mapsto> PStr v)])))
          else None
      | _ \<Rightarrow> None)"

definition handleAcademicChange :: "nat \<Rightarrow> string \<Rightarrow> string \<Rightarrow> plaafp \<Rightarrow> plaafp option" where
  "handleAcademicChange = changeSection ''academicSections''"

definition handlePerformanceSummaryChange :: "nat \<Rightarrow> string \<Rightarrow> string \<Rightarrow> plaafp \<Rightarrow> plaafp option" where
  "handlePerformanceSummaryChange = changeSection ''performanceSummarySections''"

text \<open>
  \<open>handleAddAcademicSection\<close> and \<open>handleAddPerformanceSummarySection\<close>. The clock reading
  \<open>Date.now()\<close> is the parameter \<open>now\<close>. When the property does not hold an array the
  result is \<open>None\<close>: not modelled.
\<close>

definition handleAddAcademicSection :: "int \<Rightarrow> plaafp \<Rightarrow> plaafp option" where
  "handleAddAcademicSection now prev =
     (case prev ''academicSections'' of
        Some (TArr secs) \<Rightarrow>
          Some (prev(''academicSections'' \<mapsto>
                  TArr (secs @ [jsonOfAcademic (initialAcademicSection (numToString now))])))
      | _ \<Rightarrow> None)"

definition handleAddPerformanceSummarySection :: "int \<Rightarrow> plaafp \<Rightarrow> plaafp option" where
  "handleAddPerformanceSummarySection now prev =
     (case prev ''performanceSummarySections'' of
        Some (TArr secs) \<Rightarrow>
          Some (prev(''performanceSummarySections'' \<mapsto>
                  TArr (secs @ [jsonOfSummary (initialPerformanceSummarySection (numToString now))])))
      | _ \<Rightarrow> None)"

section \<open>The preview-edit engine\<close>

text \<open>
  \<open>handlePreviewEdit\<close> hands the markup to the browser and reads, from each element that
  \<open>querySelectorAll('.editable-field[data-field]')\<close> returns, three data attributes and the
  text. The browser's parser is not part of the program: the model starts from the list
  of those elements, in document order.
\<close>

record fieldElement =
  field :: string
  indexStr :: "string option"
  sectionType :: "string option"
  innerText :: string

datatype error = TypeError

text \<open>
  The branch for an element with a \<open>data-index\<close>, for the list stored under \<open>key\<close>. Reading
  \<open>newData[key][index]\<close> raises when the property is missing. When an earlier element has
  put a string there, \<open>[index]\<close> is a one-character string, which is truthy; every property
  of it differs from \<open>value\<close> except its own character under \<open>0\<close>; and the assignment to
  a property of a string raises in a module (strict code), the key \<open>__proto__\<close> apart.
\<close>

definition editSection :: "string \<Rightarrow> string \<Rightarrow> string \<Rightarrow> int option \<Rightarrow> plaafp \<times> bool \<Rightarrow> error + plaafp \<times> bool" where
  "editSection key fld v index st =
     (case st of (newData, changed) \<Rightarrow>
        (case newData key of
           None \<Rightarrow> Inl TypeError
         | Some (TStr s) \<Rightarrow>
             (case resolveIndex (length s) index of
                None \<Rightarrow> Inr st
              | Some i \<Rightarrow>
                  if fld = ''0'' \<and> v = [s ! i] then Inr st
                  else if fld = ''__proto__'' then Inr (newData, True)
                  else Inl TypeError)
         | Some (TArr secs) \<Rightarrow>
             (case resolveIndex (length secs) index of
                None \<Rightarrow> Inr st
              | Some i \<Rightarrow>
                  if (secs ! i) fld \<noteq> Some (PStr v)
                  then Inr (newData(key \<mapsto> TArr (secs[i := assignProp (secs ! i) fld (PStr v)])), True)
                  else Inr st)))"

text \<open>The callback of \<open>fields.forEach\<close>, on the pair of \<open>newData\<close> and \<open>changed\<close>.\<close>

definition fieldStep :: "fieldElement \<Rightarrow> plaafp \<times> bool \<Rightarrow> error + plaafp \<times> bool" where
  "fieldStep e st =
     (if field e = [] then Inr st
      else case indexStr e of
        Some s \<Rightarrow>
          if sectionType e = Some ''academic''
          then editSection ''academicSections'' (field e) (innerText e) (parseInt s) st
          else if sectionType e = Some ''summary''
          then editSection ''performanceSummarySections'' (field e) (innerText e) (parseInt s) st
          else Inr st
      | None \<Rightarrow>
          (case st of (newData, changed) \<Rightarrow>
             if newData (field e) \<noteq> Some (TStr (innerText e))
             then Inr (assignProp newData (field e) (TStr (innerText e)), True)
             else Inr st))"

fun forEachField :: "fieldElement list \<Rightarrow> plaafp \<times> bool \<Rightarrow> error + plaafp \<times> bool" where
  "forEachField [] st = Inr st"
| "forEachField (e # es) st =
     (case fieldStep e st of Inl x \<Rightarrow> Inl x | Inr st' \<Rightarrow> forEachField es st')"

text \<open>
  What the updater returns: its argument \<open>currentData\<close> itself (\<open>Unchanged\<close>), written
  \<open>prev\<close> here, or the edited copy. The copy \<open>JSON.parse(JSON.stringify(currentData))\<close>
  has the value of its argument.
\<close>

datatype reconciled = Unchanged | Replaced plaafp

definition handlePreviewEdit :: "fieldElement list \<Rightarrow> plaafp \<Rightarrow> error + reconciled" where
  "handlePreviewEdit elems prev =
     (case forEachField elems (prev, False) of
        Inl x \<Rightarrow> Inl x
      | Inr (newData, changed) \<Rightarrow> Inr (if changed then Replaced newData else Unchanged))"

text \<open>The record held after the update.\<close>

fun recordAfter :: "plaafp \<Rightarrow> reconciled \<Rightarrow> plaafp" where
  "recordAfter prev Unchanged = prev"
| "recordAfter prev (Replaced newData) = newData"

text \<open>
  The elements the browser finds in the markup of \<open>generatePreviewHtml\<close>: one for each
  \<open>Span\<close> piece, in order, with the attributes \<open>editableSpan\<close> wrote and, as text, the value
  it was given (the parser turns the three entities of \<open>sanitize\<close> back; the text of an
  element that is not displayed is its text content).
\<close>

fun spanElement :: "piece \<Rightarrow> fieldElement list" where
  "spanElement (Span fld v sectionTy idx) =
     [\<lparr>field = fld, indexStr = map_option natToString idx, sectionType = sectionTy, innerText = v\<rparr>]"
| "spanElement _ = []"

definition spanElements :: "piece list list \<Rightarrow> fieldElement list" where
  "spanElements parts = concat (map spanElement (concat parts))"

text \<open>
  Two cases are left out (\<open>None\<close>). The one interpolation that is neither escaped nor a
  constant is the deficit type: when it holds a \<open><\<close> the markup has tags of its own. And
  the parser does not keep every character of a text: it reads a carriage return as a
  line feed and drops the character NUL.
\<close>

definition keptByParser :: "string \<Rightarrow> bool" where
  "keptByParser s \<longleftrightarrow> CHR 0x0D \<notin> set s \<and> CHR 0x00 \<notin> set s"

definition previewFields :: "PlaafpData \<Rightarrow> fieldElement list option" where
  "previewFields d =
     (if CHR ''<'' \<in> set (deficitType d)
         \<or> \<not> list_all (\<lambda>e. keptByParser (innerText e)) (spanElements (htmlParts d))
      then None else Some (spanElements (htmlParts d)))"

section \<open>Locators\<close>

text \<open>
  The place an element names: a field of the document, or a field of the section at a
  position of one of the two lists. An element with an empty field name, with a section
  type other than \<open>academic\<close> and \<open>summary\<close>, or with an index that is no position of the
  array stored in the record names no place.
\<close>

datatype locator = TopLevelField string | SectionField string nat string

definition listKey :: "string option \<Rightarrow> string option" where
  "listKey sectionTy =
     (if sectionTy = Some ''academic'' then Some ''academicSections''
      else if sectionTy = Some ''summary'' then Some ''performanceSummarySections''
      else None)"

definition sectionsAt :: "plaafp \<Rightarrow> string \<Rightarrow> sectionObj list option" where
  "sectionsAt nd key = (case nd key of Some (TArr secs) \<Rightarrow> Some secs | _ \<Rightarrow> None)"

definition locatorOf :: "plaafp \<Rightarrow> fieldElement \<Rightarrow> locator option" where
  "locatorOf nd e =
     (if field e = [] then None
      else case indexStr e of
        None \<Rightarrow> Some (TopLevelField (field e))
      | Some s \<Rightarrow>
          (case listKey (sectionType e) of
             None \<Rightarrow> None
           | Some key \<Rightarrow>
               (case sectionsAt nd key of
                  None \<Rightarrow> None
                | Some secs \<Rightarrow>
                    map_option (\<lambda>i. SectionField key i (field e))
                      (resolveIndex (length secs) (parseInt s)))))"

text \<open>The string a record stores at a place, if it stores a string there.\<close>

fun readLoc :: "plaafp \<Rightarrow> locator \<Rightarrow> string option" where
  "readLoc nd (TopLevelField f) = (case nd f of Some (TStr v) \<Rightarrow> Some v | _ \<Rightarrow> None)"
| "readLoc nd (SectionField key i f) =
     (case sectionsAt nd key of
        Some secs \<Rightarrow>
          (if i < length secs then (case (secs ! i) f of Some (PStr v) \<Rightarrow> Some v | _ \<Rightarrow> None) else None)
      | None \<Rightarrow> None)"

fun writeLoc :: "plaafp \<Rightarrow> locator \<Rightarrow> string \<Rightarrow> plaafp" where
  "writeLoc nd (TopLevelField f) v = assignProp nd f (TStr v)"
| "writeLoc nd (SectionField key i f) v =
     (case sectionsAt nd key of
        Some secs \<Rightarrow> nd(key \<mapsto> TArr (secs[i := assignProp (secs ! i) f (PStr v)]))
      | None \<Rightarrow> nd)"

text \<open>Both list properties of the record hold arrays.\<close>

definition hasLists :: "plaafp \<Rightarrow> bool" where
  "hasLists nd \<longleftrightarrow> sectionsAt nd ''academicSections'' \<noteq> None \<and> sectionsAt nd ''performanceSummarySections'' \<noteq> None"

text \<open>An element without index whose field name is the name of one of the two lists.\<close>

definition namesList :: "fieldElement \<Rightarrow> bool" where
  "namesList e \<longleftrightarrow> indexStr e = None \<and> (field e = ''academicSections'' \<or> field e = ''performanceSummarySections'')"

text \<open>The identifiers of the sections of a list, in order.\<close>

definition sectionIds :: "plaafp \<Rightarrow> string \<Rightarrow> pval option list option" where
  "sectionIds nd key = map_option (map (\<lambda>sec. sec ''id'')) (sectionsAt nd key)"

text \<open>The number of sections of a list.\<close>

definition sectionCount :: "plaafp \<Rightarrow> string \<Rightarrow> nat option" where
  "sectionCount nd key = map_option length (sectionsAt nd key)"

text \<open>An element with an index whose field name is \<open>id\<close>.\<close>

definition namesId :: "fieldElement \<Rightarrow> bool" where
  "namesId e \<longleftrightarrow> indexStr e \<noteq> None \<and> field e = ''id''"

text \<open>Two records have lists of the same lengths, and of the same identifiers in the same order.\<close>

definition sameShape :: "plaafp \<Rightarrow> plaafp \<Rightarrow> bool" where
  "sameShape a b \<longleftrightarrow>
     sectionCount b ''academicSections'' = sectionCount a ''academicSections''
     \<and> sectionCount b ''performanceSummarySections'' = sectionCount a ''performanceSummarySections''"

definition sameIds :: "plaafp \<Rightarrow> plaafp \<Rightarrow> bool" where
  "sameIds a b \<longleftrightarrow>
     sectionIds b ''academicSections'' = sectionIds a ''academicSections''
     \<and> sectionIds b ''performanceSummarySections'' = sectionIds a ''performanceSummarySections''"


text \<open>
  Two records agree everywhere except, at most, at one place: every other property of
  the document is the same value, and when the place is a field of a section, the list
  has the same length, every other section is the same, and so is every other property
  of that section.
\<close>

fun sameExceptAt :: "locator \<Rightarrow> plaafp \<Rightarrow> plaafp \<Rightarrow> bool" where
  "sameExceptAt (TopLevelField f) a b \<longleftrightarrow> (\<forall>k. k \<noteq> f \<longrightarrow> b k = a k)"
| "sameExceptAt (SectionField key i f) a b \<longleftrightarrow>
     (\<forall>k. k \<noteq> key \<longrightarrow> b k = a k)
     \<and> (case (sectionsAt a key, sectionsAt b key) of
          (Some xs, Some ys) \<Rightarrow>
            length ys = length xs
            \<and> (\<forall>j < length xs. j \<noteq> i \<longrightarrow> ys ! j = xs ! j)
            \<and> (i < length xs \<and> (\<forall>n. n \<noteq> f \<longrightarrow> (ys ! i) n = (xs ! i) n))
        | _ \<Rightarrow> False)"

text \<open>The same, and both records store a string at the place.\<close>

definition editedAt :: "locator \<Rightarrow> plaafp \<Rightarrow> plaafp \<Rightarrow> bool" where
  "editedAt l prev nd \<longleftrightarrow> sameExceptAt l prev nd \<and> readLoc prev l \<noteq> None \<and> readLoc nd l \<noteq> None"


text \<open>The property \<open>key\<close> of the record held after the edit; \<open>None\<close> also when the edit raised.\<close>

definition storedAfter :: "fieldElement list \<Rightarrow> plaafp \<Rightarrow> string \<Rightarrow> tval option" where
  "storedAfter elems prev key =
     (case handlePreviewEdit elems prev of Inl _ \<Rightarrow> None | Inr r \<Rightarrow> recordAfter prev r key)"

text \<open>The user retypes the text of the elements of the document field \<open>fld\<close>.\<close>

definition retype :: "string \<Rightarrow> string \<Rightarrow> fieldElement list \<Rightarrow> fieldElement list" where
  "retype fld v elems = map (\<lambda>e. if field e = fld \<and> indexStr e = None then e\<lparr>innerText := v\<rparr> else e) elems"

section \<open>Well-formed records and the records the application reaches\<close>

text \<open>
  The keys the interfaces declare with type \<open>string\<close>: of the document, of an academic
  section and of a performance-summary section.
\<close>

definition topStringKeys :: "string list" where
  "topStringKeys =
     [''studentName'', ''grade'', ''disabilities'', ''subjects'', ''cognitiveDeficits'',
      ''academicDeficits'', ''disabilityImpact'', ''deficitType'', ''specialEdSupport'',
      ''relatedServices'', ''accommodations'', ''functionalStrengths'', ''functionalDeficits'',
      ''functionalDataSource'', ''functionalImpact'', ''transitionStrengths'',
      ''transitionSupportNeeds'', ''transitionIndependentLiving'', ''transitionSchedules'',
      ''transitionResponsibility'', ''transitionParticipation'', ''transitionEmploymentGoal'',
      ''parentEmploymentPlan'', ''parentEmploymentGoal'', ''parentLivingPlan'', ''parentName'']"

definition academicStringKeys :: "string list" where
  "academicStringKeys =
     [''id'', ''subject'', ''staarProficient'', ''staarDeficits'', ''currentData'',
      ''performanceComparison'', ''noProgressReason'', ''readingFluency'',
      ''readingComprehension'', ''mathProblemSolving'', ''supportsPerformance'',
      ''classroomStrengths'', ''classroomDeficits'', ''deficitsEvidence'', ''withSupports'',
      ''withoutSupports'', ''peerComparisonGradeLevel'', ''peerComparisonStudent'',
      ''benchmarkPercentile'', ''peerBenchmarkPercentile'', ''strengthsDespiteDeficits'',
      ''criticalNeeds'', ''independentAccessImpact'']"

definition summaryStringKeys :: "string list" where
  "summaryStringKeys =
     [''id'', ''subject'', ''passedStateAssessment'', ''taksScore'', ''rawScore'',
      ''percentCorrect'', ''gradeInSubject'', ''accommodations'', ''needs'',
      ''receivesSpecialEdSupport'', ''strengths'']"

text \<open>
  A well-formed record has every declared key: the string keys hold strings, the two
  lists hold arrays of well-formed sections, and \<open>progressDataSources\<close> of an academic
  section holds an array of strings.
\<close>

definition holdsString :: "(string \<rightharpoonup> pval) \<Rightarrow> string \<Rightarrow> bool" where
  "holdsString sec k \<longleftrightarrow> (\<exists>v. sec k = Some (PStr v))"

definition wellFormedAcademic :: "sectionObj \<Rightarrow> bool" where
  "wellFormedAcademic sec \<longleftrightarrow>
     (\<forall>k\<in>set academicStringKeys. holdsString sec k)
     \<and> (\<exists>l. sec ''progressDataSources'' = Some (PArr l))"

definition wellFormedSummary :: "sectionObj \<Rightarrow> bool" where
  "wellFormedSummary sec \<longleftrightarrow> (\<forall>k\<in>set summaryStringKeys. holdsString sec k)"

definition wellFormed :: "plaafp \<Rightarrow> bool" where
  "wellFormed nd \<longleftrightarrow>
     (\<forall>k\<in>set topStringKeys. \<exists>v. nd k = Some (TStr v))
     \<and> (\<exists>secs. nd ''academicSections'' = Some (TArr secs) \<and> (\<forall>sec\<in>set secs. wellFormedAcademic sec))
     \<and> (\<exists>secs. nd ''performanceSummarySections'' = Some (TArr secs) \<and> (\<forall>sec\<in>set secs. wellFormedSummary sec))"

text \<open>
  The \<open>name\<close> attributes of the inputs of the form: of the steps for the document, of an
  academic section and of a performance-summary section.
\<close>

definition formNames :: "string list" where
  "formNames =
     [''studentName'', ''grade'', ''disabilities'', ''subjects'', ''cognitiveDeficits'',
      ''academicDeficits'', ''disabilityImpact'', ''deficitType'', ''specialEdSupport'',
      ''relatedServices'', ''accommodations'', ''functionalDataSource'', ''functionalStrengths'',
      ''functionalDeficits'', ''functionalImpact'', ''transitionStrengths'',
      ''transitionSupportNeeds'', ''transitionIndependentLiving'', ''transitionSchedules'',
      ''transitionEmploymentGoal'', ''parentName'', ''parentEmploymentPlan'',
      ''parentEmploymentGoal'', ''parentLivingPlan'']"

definition academicFormNames :: "string list" where
  "academicFormNames =
     [''subject'', ''staarProficient'', ''staarDeficits'', ''readingFluency'',
      ''readingComprehension'', ''mathProblemSolving'', ''classroomStrengths'',
      ''classroomDeficits'', ''deficitsEvidence'', ''criticalNeeds'']"

definition summaryFormNames :: "string list" where
  "summaryFormNames =
     [''subject'', ''passedStateAssessment'', ''taksScore'', ''rawScore'', ''percentCorrect'',
      ''gradeInSubject'', ''accommodations'', ''needs'', ''receivesSpecialEdSupport'',
      ''strengths'']"

text \<open>An element with an index whose field name is \<open>progressDataSources\<close>.\<close>

definition namesSources :: "fieldElement \<Rightarrow> bool" where
  "namesSources e \<longleftrightarrow> indexStr e \<noteq> None \<and> field e = ''progressDataSources''"

text \<open>
  The records the application holds: the empty record, and what the handlers make of a
  record it holds. The form passes the names of its inputs and the position of a section
  it displays. The markup of a preview edit may hold any elements, except one that names
  a list of the document or \<open>progressDataSources\<close>.
\<close>

inductive reachable :: "plaafp \<Rightarrow> bool" where
  initial: "reachable (jsonOf initialPlaafpData)"
| change: "reachable s \<Longrightarrow> name \<in> set formNames \<Longrightarrow> reachable (handleChange name v s)"
| academicChange:
    "reachable s \<Longrightarrow> name \<in> set academicFormNames \<Longrightarrow> handleAcademicChange i name v s = Some s'
     \<Longrightarrow> reachable s'"
| summaryChange:
    "reachable s \<Longrightarrow> name \<in> set summaryFormNames \<Longrightarrow> handlePerformanceSummaryChange i name v s = Some s'
     \<Longrightarrow> reachable s'"
| addAcademic: "reachable s \<Longrightarrow> handleAddAcademicSection now s = Some s' \<Longrightarrow> reachable s'"
| addSummary: "reachable s \<Longrightarrow> handleAddPerformanceSummarySection now s = Some s' \<Longrightarrow> reachable s'"
| previewEdit:
    "reachable s \<Longrightarrow> \<forall>e\<in>set elems. \<not> namesList e \<and> \<not> namesSources e
     \<Longrightarrow> handlePreviewEdit elems s = Inr r \<Longrightarrow> reachable (recordAfter s r)"


text \<open>The identifiers of the sections of a list are pairwise distinct.\<close>

definition distinctIds :: "plaafp \<Rightarrow> string \<Rightarrow> bool" where
  "distinctIds nd key = (case sectionIds nd key of Some ids \<Rightarrow> distinct ids | None \<Rightarrow> False)"


section \<open>The record the preview stores\<close>






section \<open>What a span of the preview shows\<close>



section \<open>The loop body in terms of locators\<close>

lemma resolveIndex_lt: "resolveIndex n ix = Some i \<Longrightarrow> i < n"
  by (auto simp: resolveIndex_def split: option.splits if_splits)

lemma listKey_cases:
  "listKey t = Some key \<Longrightarrow> key = ''academicSections'' \<or> key = ''performanceSummarySections''"
  by (cases "t = Some ''academic''"; cases "t = Some ''summary''") (simp_all add: listKey_def)

lemma sectionsAt_Some: "sectionsAt nd k = Some ys \<longleftrightarrow> nd k = Some (TArr ys)"
proof (cases "nd k")
  case None
  then show ?thesis by (simp add: sectionsAt_def)
next
  case (Some t)
  then show ?thesis by (cases t) (simp_all add: sectionsAt_def)
qed

lemma sectionsAt_TStr: "nd k = Some (TStr a) \<Longrightarrow> sectionsAt nd k = None"
  by (simp add: sectionsAt_def)

lemma hasLists_key:
  assumes "hasLists nd" "listKey t = Some key"
  shows "\<exists>secs. nd key = Some (TArr secs)"
  using listKey_cases[OF assms(2)] assms(1) by (auto simp: hasLists_def sectionsAt_Some)

lemma editSection_array:
  assumes "nd key = Some (TArr secs)"
  shows "editSection key f v ix (nd, ch) =
     (case resolveIndex (length secs) ix of
        None \<Rightarrow> Inr (nd, ch)
      | Some i \<Rightarrow>
          if (secs ! i) f \<noteq> Some (PStr v)
          then Inr (nd(key \<mapsto> TArr (secs[i := assignProp (secs ! i) f (PStr v)])), True)
          else Inr (nd, ch))"
  using assms by (simp add: editSection_def)

lemma fieldStep_indexed:
  assumes "field e \<noteq> []" "indexStr e = Some s"
  shows "fieldStep e st =
     (case listKey (sectionType e) of
        None \<Rightarrow> Inr st
      | Some key \<Rightarrow> editSection key (field e) (innerText e) (parseInt s) st)"
  using assms by (simp add: fieldStep_def listKey_def)

lemma fieldStep_top:
  assumes "field e \<noteq> []" "indexStr e = None"
  shows "fieldStep e (nd, ch) =
     (if nd (field e) \<noteq> Some (TStr (innerText e))
      then Inr (assignProp nd (field e) (TStr (innerText e)), True) else Inr (nd, ch))"
  using assms by (simp add: fieldStep_def)

lemma locatorOf_top:
  assumes "field e \<noteq> []" "indexStr e = None"
  shows "locatorOf nd e = Some (TopLevelField (field e))"
  using assms by (simp add: locatorOf_def)

lemma locatorOf_indexed:
  assumes "field e \<noteq> []" "indexStr e = Some s" "listKey (sectionType e) = Some key"
    "nd key = Some (TArr secs)"
  shows "locatorOf nd e = map_option (\<lambda>i. SectionField key i (field e)) (resolveIndex (length secs) (parseInt s))"
  using assms sectionsAt_Some[of nd key secs] by (simp add: locatorOf_def)

lemma locatorOf_empty: "field e = [] \<Longrightarrow> locatorOf nd e = None"
  by (simp add: locatorOf_def)

lemma locatorOf_no_list:
  assumes "indexStr e = Some s" "listKey (sectionType e) = None"
  shows "locatorOf nd e = None"
  using assms by (simp add: locatorOf_def)

lemma locatorOf_no_array:
  assumes "indexStr e = Some s" "listKey (sectionType e) = Some key" "sectionsAt nd key = None"
  shows "locatorOf nd e = None"
  using assms by (simp add: locatorOf_def)

lemma readLoc_top: "readLoc nd (TopLevelField f) = Some v \<longleftrightarrow> nd f = Some (TStr v)"
proof (cases "nd f")
  case None
  then show ?thesis by simp
next
  case (Some t)
  then show ?thesis by (cases t) simp_all
qed

lemma readLoc_section:
  assumes "sectionsAt nd key = Some secs" "i < length secs"
  shows "readLoc nd (SectionField key i f) = Some v \<longleftrightarrow> (secs ! i) f = Some (PStr v)"
proof (cases "(secs ! i) f")
  case None
  then show ?thesis using assms by simp
next
  case (Some t)
  then show ?thesis using assms by (cases t) simp_all
qed

lemma fieldStep_unlocated:
  assumes "hasLists nd" "locatorOf nd e = None"
  shows "fieldStep e (nd, ch) = Inr (nd, ch)"
proof (cases "field e = []")
  case True
  then show ?thesis by (simp add: fieldStep_def)
next
  case False
  show ?thesis
  proof (cases "indexStr e")
    case None
    then show ?thesis using False assms(2) locatorOf_top by simp
  next
    case (Some s)
    show ?thesis
    proof (cases "listKey (sectionType e)")
      case None
      then show ?thesis using False Some by (simp add: fieldStep_indexed)
    next
      case key: (Some key)
      obtain secs where secs: "nd key = Some (TArr secs)" using hasLists_key[OF assms(1) key] by blast
      have "resolveIndex (length secs) (parseInt s) = None"
        using locatorOf_indexed[of e s key nd secs] False Some key secs assms(2) by simp
      then show ?thesis using False Some key secs by (simp add: fieldStep_indexed editSection_array)
    qed
  qed
qed

lemma locatorOf_Some_cases:
  assumes "locatorOf nd e = Some l"
  shows "(field e \<noteq> [] \<and> indexStr e = None \<and> l = TopLevelField (field e))
       \<or> (\<exists>s key secs i. field e \<noteq> [] \<and> indexStr e = Some s \<and> listKey (sectionType e) = Some key
            \<and> nd key = Some (TArr secs) \<and> resolveIndex (length secs) (parseInt s) = Some i
            \<and> l = SectionField key i (field e))"
proof (cases "field e = []")
  case True
  then show ?thesis using assms locatorOf_empty by simp
next
  case False
  show ?thesis
  proof (cases "indexStr e")
    case None
    then show ?thesis using False assms locatorOf_top by simp
  next
    case (Some s)
    show ?thesis
    proof (cases "listKey (sectionType e)")
      case None
      then show ?thesis using Some assms locatorOf_no_list by simp
    next
      case key: (Some key)
      show ?thesis
      proof (cases "sectionsAt nd key")
        case None
        then show ?thesis using Some key assms locatorOf_no_array by simp
      next
        case secs: (Some secs)
        then have a: "nd key = Some (TArr secs)" by (simp add: sectionsAt_Some)
        have "map_option (\<lambda>i. SectionField key i (field e)) (resolveIndex (length secs) (parseInt s)) = Some l"
          using locatorOf_indexed[of e s key nd secs] False Some key a assms by simp
        then obtain i where "resolveIndex (length secs) (parseInt s) = Some i" "l = SectionField key i (field e)"
          by (cases "resolveIndex (length secs) (parseInt s)") auto
        then show ?thesis using False Some key a by simp
      qed
    qed
  qed
qed

lemma fieldStep_same:
  assumes "locatorOf nd e = Some l" "readLoc nd l = Some (innerText e)"
  shows "fieldStep e (nd, ch) = Inr (nd, ch)"
  using locatorOf_Some_cases[OF assms(1)]
proof (elim disjE conjE exE)
  assume a: "field e \<noteq> []" "indexStr e = None" "l = TopLevelField (field e)"
  have "readLoc nd (TopLevelField (field e)) = Some (innerText e)"
    using assms(2) a(3) by (simp del: readLoc.simps)
  then have "nd (field e) = Some (TStr (innerText e))" by (simp add: readLoc_top del: readLoc.simps)
  then show ?thesis using a by (simp add: fieldStep_top)
next
  fix s key secs i
  assume a: "field e \<noteq> []" "indexStr e = Some s" "listKey (sectionType e) = Some key"
    "nd key = Some (TArr secs)" "resolveIndex (length secs) (parseInt s) = Some i"
    "l = SectionField key i (field e)"
  have "readLoc nd (SectionField key i (field e)) = Some (innerText e)"
    using assms(2) a(6) by (simp del: readLoc.simps)
  then have "(secs ! i) (field e) = Some (PStr (innerText e))"
    using a(4) resolveIndex_lt[OF a(5)] by (simp add: readLoc_section sectionsAt_Some del: readLoc.simps)
  then show ?thesis using a by (simp add: fieldStep_indexed editSection_array)
qed

lemma fieldStep_differs:
  assumes "locatorOf nd e = Some l" "readLoc nd l \<noteq> Some (innerText e)"
  shows "fieldStep e (nd, ch) = Inr (writeLoc nd l (innerText e), True)"
  using locatorOf_Some_cases[OF assms(1)]
proof (elim disjE conjE exE)
  assume a: "field e \<noteq> []" "indexStr e = None" "l = TopLevelField (field e)"
  have "readLoc nd (TopLevelField (field e)) \<noteq> Some (innerText e)"
    using assms(2) a(3) by (simp del: readLoc.simps)
  then have "nd (field e) \<noteq> Some (TStr (innerText e))" by (simp add: readLoc_top del: readLoc.simps)
  then show ?thesis using a by (simp add: fieldStep_top)
next
  fix s key secs i
  assume a: "field e \<noteq> []" "indexStr e = Some s" "listKey (sectionType e) = Some key"
    "nd key = Some (TArr secs)" "resolveIndex (length secs) (parseInt s) = Some i"
    "l = SectionField key i (field e)"
  have "readLoc nd (SectionField key i (field e)) \<noteq> Some (innerText e)"
    using assms(2) a(6) by (simp del: readLoc.simps)
  then have "(secs ! i) (field e) \<noteq> Some (PStr (innerText e))"
    using a(4) resolveIndex_lt[OF a(5)] by (simp add: readLoc_section sectionsAt_Some del: readLoc.simps)
  then show ?thesis using a by (simp add: fieldStep_indexed editSection_array sectionsAt_def)
qed

lemma forEachField_append:
  "forEachField (xs @ ys) st = (case forEachField xs st of Inl x \<Rightarrow> Inl x | Inr st' \<Rightarrow> forEachField ys st')"
  by (induction xs arbitrary: st) (auto split: sum.splits)


lemma parseInt_0: "parseInt ''0'' = Some 0"
  by (simp add: parseInt_def isWhiteSpace_def isDigit_def digitsValue_def)


lemma jsonOf_lookup:
  "jsonOf d ''studentName'' = Some (TStr (studentName d))"
  "jsonOf d ''grade'' = Some (TStr (grade d))"
  "jsonOf d ''disabilities'' = Some (TStr (disabilities d))"
  "jsonOf d ''subjects'' = Some (TStr (subjects d))"
  "jsonOf d ''cognitiveDeficits'' = Some (TStr (cognitiveDeficits d))"
  "jsonOf d ''academicDeficits'' = Some (TStr (academicDeficits d))"
  "jsonOf d ''disabilityImpact'' = Some (TStr (disabilityImpact d))"
  "jsonOf d ''deficitType'' = Some (TStr (deficitType d))"
  "jsonOf d ''specialEdSupport'' = Some (TStr (specialEdSupport d))"
  "jsonOf d ''relatedServices'' = Some (TStr (relatedServices d))"
  "jsonOf d ''accommodations'' = Some (TStr (accommodations d))"
  "jsonOf d ''academicSections'' = Some (TArr (map jsonOfAcademic (academicSections d)))"
  "jsonOf d ''performanceSummarySections'' = Some (TArr (map jsonOfSummary (performanceSummarySections d)))"
  "jsonOf d ''functionalStrengths'' = Some (TStr (functionalStrengths d))"
  "jsonOf d ''functionalDeficits'' = Some (TStr (functionalDeficits d))"
  "jsonOf d ''functionalDataSource'' = Some (TStr (functionalDataSource d))"
  "jsonOf d ''functionalImpact'' = Some (TStr (functionalImpact d))"
  "jsonOf d ''transitionStrengths'' = Some (TStr (transitionStrengths d))"
  "jsonOf d ''transitionSupportNeeds'' = Some (TStr (transitionSupportNeeds d))"
  "jsonOf d ''transitionIndependentLiving'' = Some (TStr (transitionIndependentLiving d))"
  "jsonOf d ''transitionSchedules'' = Some (TStr (transitionSchedules d))"
  "jsonOf d ''transitionResponsibility'' = Some (TStr (transitionResponsibility d))"
  "jsonOf d ''transitionParticipation'' = Some (TStr (transitionParticipation d))"
  "jsonOf d ''transitionEmploymentGoal'' = Some (TStr (transitionEmploymentGoal d))"
  "jsonOf d ''parentEmploymentPlan'' = Some (TStr (parentEmploymentPlan d))"
  "jsonOf d ''parentEmploymentGoal'' = Some (TStr (parentEmploymentGoal d))"
  "jsonOf d ''parentLivingPlan'' = Some (TStr (parentLivingPlan d))"
  "jsonOf d ''parentName'' = Some (TStr (parentName d))"
  by (simp_all add: jsonOf_def)

lemma jsonOfAcademic_lookup:
  "jsonOfAcademic a ''id'' = Some (PStr (idA a))"
  "jsonOfAcademic a ''subject'' = Some (PStr (subjectA a))"
  "jsonOfAcademic a ''staarProficient'' = Some (PStr (staarProficient a))"
  "jsonOfAcademic a ''staarDeficits'' = Some (PStr (staarDeficits a))"
  "jsonOfAcademic a ''progressDataSources'' = Some (PArr (progressDataSources a))"
  "jsonOfAcademic a ''currentData'' = Some (PStr (currentData a))"
  "jsonOfAcademic a ''performanceComparison'' = Some (PStr (performanceComparison a))"
  "jsonOfAcademic a ''noProgressReason'' = Some (PStr (noProgressReason a))"
  "jsonOfAcademic a ''readingFluency'' = Some (PStr (readingFluency a))"
  "jsonOfAcademic a ''readingComprehension'' = Some (PStr (readingComprehension a))"
  "jsonOfAcademic a ''mathProblemSolving'' = Some (PStr (mathProblemSolving a))"
  "jsonOfAcademic a ''supportsPerformance'' = Some (PStr (supportsPerformance a))"
  "jsonOfAcademic a ''classroomStrengths'' = Some (PStr (classroomStrengths a))"
  "jsonOfAcademic a ''classroomDeficits'' = Some (PStr (classroomDeficits a))"
  "jsonOfAcademic a ''deficitsEvidence'' = Some (PStr (deficitsEvidence a))"
  "jsonOfAcademic a ''withSupports'' = Some (PStr (withSupports a))"
  "jsonOfAcademic a ''withoutSupports'' = Some (PStr (withoutSupports a))"
  "jsonOfAcademic a ''peerComparisonGradeLevel'' = Some (PStr (peerComparisonGradeLevel a))"
  "jsonOfAcademic a ''peerComparisonStudent'' = Some (PStr (peerComparisonStudent a))"
  "jsonOfAcademic a ''benchmarkPercentile'' = Some (PStr (benchmarkPercentile a))"
  "jsonOfAcademic a ''peerBenchmarkPercentile'' = Some (PStr (peerBenchmarkPercentile a))"
  "jsonOfAcademic a ''strengthsDespiteDeficits'' = Some (PStr (strengthsDespiteDeficits a))"
  "jsonOfAcademic a ''criticalNeeds'' = Some (PStr (criticalNeeds a))"
  "jsonOfAcademic a ''independentAccessImpact'' = Some (PStr (independentAccessImpact a))"
  by (simp_all add: jsonOfAcademic_def)

lemma jsonOfSummary_lookup:
  "jsonOfSummary p ''id'' = Some (PStr (idS p))"
  "jsonOfSummary p ''subject'' = Some (PStr (subjectS p))"
  "jsonOfSummary p ''passedStateAssessment'' = Some (PStr (passedStateAssessment p))"
  "jsonOfSummary p ''taksScore'' = Some (PStr (taksScore p))"
  "jsonOfSummary p ''rawScore'' = Some (PStr (rawScore p))"
  "jsonOfSummary p ''percentCorrect'' = Some (PStr (percentCorrect p))"
  "jsonOfSummary p ''gradeInSubject'' = Some (PStr (gradeInSubject p))"
  "jsonOfSummary p ''accommodations'' = Some (PStr (accommodationsS p))"
  "jsonOfSummary p ''needs'' = Some (PStr (needs p))"
  "jsonOfSummary p ''receivesSpecialEdSupport'' = Some (PStr (receivesSpecialEdSupport p))"
  "jsonOfSummary p ''strengths'' = Some (PStr (strengths p))"
  by (simp_all add: jsonOfSummary_def)



lemmas render_defs = htmlParts_def introParts_def functionalParts_def transitionParts_def
  academicParts_def summaryParts_def spanElements_def studentNameOr_def parentNameOr_def
  fill_def trim_def isWhiteSpace_def

lemmas step_defs = handlePreviewEdit_def fieldStep_def editSection_def assignProp_def resolveIndex_def

lemma spanElements_append: "spanElements (a @ b) = spanElements a @ spanElements b"
  by (simp add: spanElements_def)

lemma spanElements_htmlParts:
  "spanElements (htmlParts d)
     = spanElements (introParts d)
       @ spanElements (forEachIndexed (academicParts d) 0 (academicSections d))
       @ spanElements (functionalParts d)
       @ spanElements (transitionParts d)
       @ spanElements (forEachIndexed (summaryParts d) 0 (performanceSummarySections d))"
proof (cases "performanceSummarySections d")
  case Nil
  then show ?thesis by (simp add: htmlParts_def spanElements_append) (simp add: spanElements_def)
next
  case (Cons p ps)
  have "spanElements ([Lit ''<strong>Summary of Performance</strong>'']
            # forEachIndexed (summaryParts d) 0 (performanceSummarySections d))
        = spanElements (forEachIndexed (summaryParts d) 0 (performanceSummarySections d))"
    by (simp add: spanElements_def)
  then show ?thesis using Cons by (simp add: htmlParts_def spanElements_append)
qed

lemma previewFields_initial:
  "previewFields initialPlaafpData = Some (spanElements (htmlParts initialPlaafpData))"
proof -
  have "list_all (\<lambda>e. keptByParser (innerText e)) (spanElements (htmlParts initialPlaafpData))"
    by (simp add: spanElements_htmlParts)
       (simp add: spanElements_def introParts_def functionalParts_def transitionParts_def
          studentNameOr_def parentNameOr_def fill_def trim_def keptByParser_def initialPlaafpData_def)
  then show ?thesis by (simp add: previewFields_def initialPlaafpData_def)
qed

lemma hasLists_jsonOf: "hasLists (jsonOf d)"
  by (simp add: hasLists_def sectionsAt_def jsonOf_lookup)

section \<open>Decimal strings\<close>

lemma of_char_digitChar: "d < 10 \<Longrightarrow> (of_char (digitChar d) :: nat) = 48 + d"
proof -
  assume "d < 10"
  then have "d \<in> {0, 1, 2, 3, 4, 5, 6, 7, 8, 9}" by auto
  then show ?thesis by (auto simp: digitChar_def)
qed

lemma isDigit_digitChar: "d < 10 \<Longrightarrow> isDigit (digitChar d)"
  by (simp add: isDigit_def of_char_digitChar)

lemma digitsValue_snoc: "digitsValue (ds @ [c]) = 10 * digitsValue ds + (of_char c - 48)"
  by (simp add: digitsValue_def)

lemma digitsValue_natToString: "digitsValue (natToString n) = n"
proof (induction n rule: natToString.induct)
  case (1 n)
  show ?case
  proof (cases "n < 10")
    case True
    then show ?thesis
      by (simp add: natToString.simps[of n] digitsValue_def of_char_digitChar)
  next
    case False
    then have "digitsValue (natToString n) = 10 * (n div 10) + n mod 10"
      using 1 by (simp add: natToString.simps[of n] digitsValue_snoc of_char_digitChar)
    then show ?thesis by simp
  qed
qed

lemma natToString_digits: "c \<in> set (natToString n) \<Longrightarrow> isDigit c"
proof (induction n rule: natToString.induct)
  case (1 n)
  then show ?case
    by (cases "n < 10") (auto simp: natToString.simps[of n] isDigit_digitChar)
qed

lemma natToString_nonempty: "natToString n \<noteq> []"
  by (cases "n < 10") (simp_all add: natToString.simps[of n])

lemma natToString_inj: "natToString m = natToString n \<longleftrightarrow> m = n"
  using digitsValue_natToString by metis


lemma isDigit_not_sign: "isDigit c \<Longrightarrow> c \<noteq> CHR ''-'' \<and> c \<noteq> CHR ''+''"
  by (auto simp: isDigit_def)


lemma numToString_inj: "numToString a = numToString b \<longleftrightarrow> a = b"
proof
  assume e: "numToString a = numToString b"
  have hd: "\<And>n. hd (natToString n) \<noteq> CHR ''-''"
  proof -
    fix n
    have "hd (natToString n) \<in> set (natToString n)" using natToString_nonempty by simp
    then show "hd (natToString n) \<noteq> CHR ''-''" using natToString_digits isDigit_not_sign by blast
  qed
  show "a = b"
  proof (cases "a < 0"; cases "b < 0")
    assume "a < 0" "b < 0"
    then show ?thesis using e by (simp add: numToString_def natToString_inj)
  next
    assume c: "a < 0" "\<not> b < 0"
    have "hd (numToString a) = hd (numToString b)" using e by simp
    then have "CHR ''-'' = hd (natToString (nat b))" using c by (simp add: numToString_def)
    then show ?thesis using hd by metis
  next
    assume c: "\<not> a < 0" "b < 0"
    have "hd (numToString b) = hd (numToString a)" using e by simp
    then have "CHR ''-'' = hd (natToString (nat a))" using c by (simp add: numToString_def)
    then show ?thesis using hd by metis
  next
    assume "\<not> a < 0" "\<not> b < 0"
    then show ?thesis using e by (simp add: numToString_def natToString_inj)
  qed
qed simp
section \<open>The engine does not raise, and returns its argument when nothing differs\<close>

lemma writeLoc_hasLists:
  assumes "hasLists nd" "locatorOf nd e = Some l" "\<not> namesList e"
  shows "hasLists (writeLoc nd l v)"
  using assms
  by (cases l)
     (auto simp: hasLists_def locatorOf_def namesList_def sectionsAt_def assignProp_def
      split: option.splits if_splits tval.splits)







section \<open>The engine keeps the sections and their identifiers\<close>

lemma locatorOf_cases:
  assumes "locatorOf nd e = Some l"
  shows "(indexStr e = None \<and> l = TopLevelField (field e))
       \<or> (\<exists>key secs i. indexStr e \<noteq> None \<and> l = SectionField key i (field e)
            \<and> (key = ''academicSections'' \<or> key = ''performanceSummarySections'')
            \<and> sectionsAt nd key = Some secs \<and> i < length secs)"
  using assms
  by (auto simp: locatorOf_def listKey_def split: option.splits if_splits dest: resolveIndex_lt)

lemma sectionsAt_upd_other: "k \<noteq> key \<Longrightarrow> sectionsAt (nd(k \<mapsto> v)) key = sectionsAt nd key"
  by (simp add: sectionsAt_def)

lemma sectionsAt_upd_same: "sectionsAt (nd(key \<mapsto> TArr xs)) key = Some xs"
  by (simp add: sectionsAt_def)

lemma sectionsAt_assign_other: "k \<noteq> key \<Longrightarrow> sectionsAt (assignProp nd k v) key = sectionsAt nd key"
  by (simp add: sectionsAt_def assignProp_def)

lemma writeLoc_sameShape:
  assumes "locatorOf nd e = Some l" "\<not> namesList e"
  shows "sameShape nd (writeLoc nd l v)"
  using locatorOf_cases[OF assms(1)] assms(2)
  by (auto simp: sameShape_def sectionCount_def namesList_def sectionsAt_assign_other
      sectionsAt_upd_same sectionsAt_upd_other)

lemma map_id_update:
  assumes "i < length secs" "f \<noteq> ''id''"
  shows "map (\<lambda>sec. sec ''id'') (secs[i := assignProp (secs ! i) f v]) = map (\<lambda>sec. sec ''id'') secs"
  using assms by (auto simp: map_update assignProp_def list_update_same_conv)

lemma writeLoc_sameIds:
  assumes "locatorOf nd e = Some l" "\<not> namesList e" "\<not> namesId e"
  shows "sameIds nd (writeLoc nd l v)"
  using locatorOf_cases[OF assms(1)] assms(2,3)
  by (auto simp: sameIds_def sectionIds_def namesList_def namesId_def sectionsAt_assign_other
      sectionsAt_upd_same sectionsAt_upd_other map_id_update)

lemma sameShape_refl: "sameShape a a" by (simp add: sameShape_def)
lemma sameIds_refl: "sameIds a a" by (simp add: sameIds_def)
lemma sameShape_trans: "sameShape a b \<Longrightarrow> sameShape b c \<Longrightarrow> sameShape a c" by (simp add: sameShape_def)
lemma sameIds_trans: "sameIds a b \<Longrightarrow> sameIds b c \<Longrightarrow> sameIds a c" by (simp add: sameIds_def)

lemma fieldStep_keeps:
  assumes "hasLists nd" "\<not> namesList e"
  shows "\<exists>nd' ch'. fieldStep e (nd, ch) = Inr (nd', ch') \<and> hasLists nd' \<and> sameShape nd nd'
           \<and> (\<not> namesId e \<longrightarrow> sameIds nd nd')"
proof (cases "locatorOf nd e")
  case None
  then show ?thesis using assms fieldStep_unlocated sameShape_refl sameIds_refl by blast
next
  case (Some l)
  show ?thesis
  proof (cases "readLoc nd l = Some (innerText e)")
    case True
    then show ?thesis using Some assms fieldStep_same sameShape_refl sameIds_refl by blast
  next
    case False
    then have "fieldStep e (nd, ch) = Inr (writeLoc nd l (innerText e), True)"
      using Some fieldStep_differs by blast
    then show ?thesis
      using Some assms writeLoc_hasLists writeLoc_sameShape writeLoc_sameIds by blast
  qed
qed

lemma forEachField_keeps:
  assumes "hasLists nd" "\<forall>e\<in>set es. \<not> namesList e"
  shows "\<exists>nd' ch'. forEachField es (nd, ch) = Inr (nd', ch') \<and> hasLists nd' \<and> sameShape nd nd'
           \<and> ((\<forall>e\<in>set es. \<not> namesId e) \<longrightarrow> sameIds nd nd')"
  using assms
proof (induction es arbitrary: nd ch)
  case Nil
  then show ?case by (simp add: sameShape_refl sameIds_refl)
next
  case (Cons e es)
  have ne: "\<not> namesList e" and nes: "\<forall>e\<in>set es. \<not> namesList e" using Cons.prems(2) by simp_all
  obtain nd1 ch1 where s: "fieldStep e (nd, ch) = Inr (nd1, ch1)" "hasLists nd1"
      "sameShape nd nd1" "\<not> namesId e \<longrightarrow> sameIds nd nd1"
    using fieldStep_keeps[OF Cons.prems(1) ne, of ch] by blast
  obtain nd2 ch2 where
    t: "forEachField es (nd1, ch1) = Inr (nd2, ch2)" "hasLists nd2" "sameShape nd1 nd2"
       "(\<forall>e\<in>set es. \<not> namesId e) \<longrightarrow> sameIds nd1 nd2"
    using Cons.IH[OF s(2) nes, of ch1] by blast
  have 1: "forEachField (e # es) (nd, ch) = Inr (nd2, ch2)" using s(1) t(1) by simp
  have 2: "sameShape nd nd2" using s(3) t(3) by (rule sameShape_trans)
  have 3: "(\<forall>e\<in>set (e # es). \<not> namesId e) \<longrightarrow> sameIds nd nd2"
  proof
    assume a: "\<forall>e\<in>set (e # es). \<not> namesId e"
    then have "sameIds nd nd1" "sameIds nd1 nd2" using s(4) t(4) by simp_all
    then show "sameIds nd nd2" by (rule sameIds_trans)
  qed
  show ?case using 1 t(2) 2 3 by blast
qed

text \<open>
  C10, as stated, fails: an element with \<open>data-field="id"\<close> and the index of a section
  rewrites the identifier of that section.
\<close>

theorem handlePreviewEdit_rewrites_id_counterexample:
  "sectionIds (jsonOf (initialPlaafpData\<lparr>academicSections := [initialAcademicSection ''1'']\<rparr>)) ''academicSections''
     = Some [Some (PStr ''1'')]
   \<and> sectionIds
       ((jsonOf (initialPlaafpData\<lparr>academicSections := [initialAcademicSection ''1'']\<rparr>))
          (''academicSections'' \<mapsto> TArr [(jsonOfAcademic (initialAcademicSection ''1''))(''id'' \<mapsto> PStr ''x'')]))
       ''academicSections''
     = Some [Some (PStr ''x'')]
   \<and> handlePreviewEdit
        [\<lparr>field = ''id'', indexStr = Some ''0'', sectionType = Some ''academic'', innerText = ''x''\<rparr>]
        (jsonOf (initialPlaafpData\<lparr>academicSections := [initialAcademicSection ''1'']\<rparr>))
     = Inr (Replaced
        ((jsonOf (initialPlaafpData\<lparr>academicSections := [initialAcademicSection ''1'']\<rparr>))
          (''academicSections'' \<mapsto> TArr [(jsonOfAcademic (initialAcademicSection ''1''))(''id'' \<mapsto> PStr ''x'')])))"
  by (simp add: step_defs jsonOf_lookup jsonOfAcademic_lookup sectionIds_def sectionsAt_def
      initialAcademicSection_def parseInt_0)

text \<open>
  C10, amended: for a record whose two list properties hold arrays and a list of elements
  in which no element without an index names one of the two lists and no element with an
  index names the field \<open>id\<close>, the engine returns, and the record held afterwards has
  lists of the same lengths, with the same identifiers in the same order.
\<close>

theorem handlePreviewEdit_keeps_sections:
  assumes "hasLists prev" "\<forall>e\<in>set elems. \<not> namesList e \<and> \<not> namesId e"
  shows "\<exists>r. handlePreviewEdit elems prev = Inr r
           \<and> sameShape prev (recordAfter prev r) \<and> sameIds prev (recordAfter prev r)"
proof -
  obtain nd' ch' where s: "forEachField elems (prev, False) = Inr (nd', ch')" "sameShape prev nd'" "sameIds prev nd'"
    using forEachField_keeps[OF assms(1), of elems False] assms(2) by blast
  show ?thesis
  proof (cases ch')
    case True
    then show ?thesis using s by (simp add: handlePreviewEdit_def)
  next
    case False
    then show ?thesis using s by (simp add: handlePreviewEdit_def sameShape_refl sameIds_refl)
  qed
qed


theorem handlePreviewEdit_keeps_sections_witness:
  "hasLists (jsonOf (initialPlaafpData\<lparr>academicSections := [initialAcademicSection ''1'']\<rparr>))
   \<and> \<not> namesList \<lparr>field = ''subject'', indexStr = Some ''0'', sectionType = Some ''academic'', innerText = ''Math''\<rparr>
   \<and> \<not> namesId \<lparr>field = ''subject'', indexStr = Some ''0'', sectionType = Some ''academic'', innerText = ''Math''\<rparr>
   \<and> (\<exists>r. handlePreviewEdit [\<lparr>field = ''subject'', indexStr = Some ''0'', sectionType = Some ''academic'', innerText = ''Math''\<rparr>]
           (jsonOf (initialPlaafpData\<lparr>academicSections := [initialAcademicSection ''1'']\<rparr>)) = Inr r
         \<and> sameShape (jsonOf (initialPlaafpData\<lparr>academicSections := [initialAcademicSection ''1'']\<rparr>))
             (recordAfter (jsonOf (initialPlaafpData\<lparr>academicSections := [initialAcademicSection ''1'']\<rparr>)) r)
         \<and> sameIds (jsonOf (initialPlaafpData\<lparr>academicSections := [initialAcademicSection ''1'']\<rparr>))
             (recordAfter (jsonOf (initialPlaafpData\<lparr>academicSections := [initialAcademicSection ''1'']\<rparr>)) r))"
proof -
  let ?R = "jsonOf (initialPlaafpData\<lparr>academicSections := [initialAcademicSection ''1'']\<rparr>)"
  let ?e = "\<lparr>field = ''subject'', indexStr = Some ''0'', sectionType = Some ''academic'', innerText = ''Math''\<rparr>"
  have h: "hasLists ?R" by (rule hasLists_jsonOf)
  have n: "\<not> namesList ?e" "\<not> namesId ?e" by (simp_all add: namesList_def namesId_def)
  then have a: "\<forall>e\<in>set [?e]. \<not> namesList e \<and> \<not> namesId e" by simp
  show ?thesis using h n handlePreviewEdit_keeps_sections[OF h a] by simp
qed

section \<open>An index that does not resolve\<close>






section \<open>One edited element leaves every other field as it was\<close>

lemma forEachField_all_same:
  assumes "\<forall>x\<in>set es. \<exists>lx. locatorOf nd x = Some lx \<and> readLoc nd lx = Some (innerText x)"
  shows "forEachField es (nd, ch) = Inr (nd, ch)"
  using assms
proof (induction es)
  case Nil
  then show ?case by simp
next
  case (Cons e es)
  then have "fieldStep e (nd, ch) = Inr (nd, ch)" using fieldStep_same by auto
  with Cons show ?case by simp
qed

lemma editedAt_sectionCount:
  assumes "editedAt l prev nd"
  shows "map_option length (sectionsAt nd key) = map_option length (sectionsAt prev key)"
proof (cases l)
  case (TopLevelField f)
  show ?thesis
  proof (cases "key = f")
    case True
    then show ?thesis using assms TopLevelField
      by (auto simp: editedAt_def sectionsAt_def split: option.splits tval.splits)
  next
    case False
    then show ?thesis using assms TopLevelField by (simp add: editedAt_def sectionsAt_def)
  qed
next
  case (SectionField k i f)
  show ?thesis
  proof (cases "key = k")
    case True
    then show ?thesis using assms SectionField
      by (auto simp: editedAt_def split: option.splits)
  next
    case False
    then show ?thesis using assms SectionField by (simp add: editedAt_def sectionsAt_def)
  qed
qed

lemma case_length_cong:
  assumes "map_option length a = map_option length b"
  shows "(case a of None \<Rightarrow> None | Some secs \<Rightarrow> F (length secs))
       = (case b of None \<Rightarrow> None | Some secs \<Rightarrow> F (length secs))"
  using assms by (cases a; cases b) auto

lemma locatorOf_length_cong:
  assumes "\<And>key. map_option length (sectionsAt nd key) = map_option length (sectionsAt prev key)"
  shows "locatorOf nd x = locatorOf prev x"
proof (cases "indexStr x")
  case None
  then show ?thesis by (simp add: locatorOf_def)
next
  case (Some s)
  show ?thesis
  proof (cases "listKey (sectionType x)")
    case None
    then show ?thesis using Some by (simp add: locatorOf_def)
  next
    case (Some key)
    have "(case sectionsAt nd key of None \<Rightarrow> None
            | Some secs \<Rightarrow> map_option (\<lambda>i. SectionField key i (field x)) (resolveIndex (length secs) (parseInt s)))
        = (case sectionsAt prev key of None \<Rightarrow> None
            | Some secs \<Rightarrow> map_option (\<lambda>i. SectionField key i (field x)) (resolveIndex (length secs) (parseInt s)))"
      by (rule case_length_cong[OF assms])
    then show ?thesis using Some \<open>indexStr x = Some s\<close> by (simp add: locatorOf_def)
  qed
qed

lemma editedAt_locatorOf: "editedAt l prev nd \<Longrightarrow> locatorOf nd x = locatorOf prev x"
  by (rule locatorOf_length_cong) (rule editedAt_sectionCount)

lemma readLoc_Top_Some:
  assumes "readLoc nd (TopLevelField f) \<noteq> None"
  shows "\<exists>a. nd f = Some (TStr a)"
proof (cases "nd f")
  case None
  then show ?thesis using assms by simp
next
  case (Some t)
  then show ?thesis using assms by (cases t) simp_all
qed

lemma readLoc_Sec_Some:
  assumes "readLoc nd (SectionField key i f) \<noteq> None"
  shows "\<exists>ys. sectionsAt nd key = Some ys \<and> i < length ys \<and> (ys ! i) f \<noteq> None"
proof (cases "sectionsAt nd key")
  case None
  then show ?thesis using assms by simp
next
  case (Some ys)
  then show ?thesis using assms by (cases "i < length ys"; cases "(ys ! i) f") simp_all
qed

lemma sameExceptAt_Sec_D:
  assumes "sameExceptAt (SectionField key i f) a b"
  shows "\<exists>xs ys. sectionsAt a key = Some xs \<and> sectionsAt b key = Some ys \<and> length ys = length xs
           \<and> (\<forall>j < length xs. j \<noteq> i \<longrightarrow> ys ! j = xs ! j)
           \<and> i < length xs \<and> (\<forall>n. n \<noteq> f \<longrightarrow> (ys ! i) n = (xs ! i) n)"
  using assms by (cases "sectionsAt a key"; cases "sectionsAt b key") simp_all

lemma editedAt_readLoc_other:
  assumes "editedAt l prev nd" "lx \<noteq> l"
  shows "readLoc nd lx = readLoc prev lx"
proof (cases l)
  case l: (TopLevelField f)
  from assms(1) l have same: "\<And>k. k \<noteq> f \<Longrightarrow> nd k = prev k"
    by (simp add: editedAt_def)
  from assms(1) l obtain a b where ab: "prev f = Some (TStr a)" "nd f = Some (TStr b)"
    using readLoc_Top_Some[of prev f] readLoc_Top_Some[of nd f] by (auto simp: editedAt_def)
  show ?thesis
  proof (cases lx)
    case (TopLevelField f')
    then have "f' \<noteq> f" using assms(2) l by simp
    then show ?thesis using TopLevelField same by simp
  next
    case (SectionField k i n)
    show ?thesis
    proof (cases "k = f")
      case True
      then show ?thesis using SectionField ab by (simp add: sectionsAt_TStr)
    next
      case False
      then show ?thesis using SectionField same by (simp add: sectionsAt_def)
    qed
  qed
next
  case l: (SectionField key i f)
  from assms(1) l have same: "\<And>k. k \<noteq> key \<Longrightarrow> nd k = prev k"
    by (simp add: editedAt_def)
  from assms(1) l obtain xs ys where
    xs: "sectionsAt prev key = Some xs" and ys: "sectionsAt nd key = Some ys"
    and len: "length ys = length xs"
    and rest: "\<forall>j < length xs. j \<noteq> i \<longrightarrow> ys ! j = xs ! j"
    and props: "\<forall>n. n \<noteq> f \<longrightarrow> (ys ! i) n = (xs ! i) n"
    using sameExceptAt_Sec_D[of key i f prev nd] by (auto simp: editedAt_def)
  show ?thesis
  proof (cases lx)
    case (TopLevelField f')
    show ?thesis
    proof (cases "f' = key")
      case True
      then show ?thesis using TopLevelField xs ys by (simp add: sectionsAt_Some)
    next
      case False
      then show ?thesis using TopLevelField same by simp
    qed
  next
    case (SectionField k j n)
    show ?thesis
    proof (cases "k = key")
      case True
      show ?thesis
      proof (cases "j = i")
        case True
        then have "n \<noteq> f" using assms(2) l SectionField \<open>k = key\<close> by simp
        then show ?thesis using SectionField \<open>k = key\<close> True xs ys len props by simp
      next
        case False
        then show ?thesis using SectionField \<open>k = key\<close> xs ys len rest by simp
      qed
    next
      case False
      then show ?thesis using SectionField same by (simp add: sectionsAt_def)
    qed
  qed
qed

lemma editedAt_write:
  assumes "editedAt l prev nd"
  shows "editedAt l prev (writeLoc nd l v)"
proof (cases l)
  case (TopLevelField f)
  then show ?thesis using assms
    by (auto simp: editedAt_def assignProp_def split: option.splits tval.splits)
next
  case l: (SectionField key i f)
  from assms l obtain xs ys where
    xs: "sectionsAt prev key = Some xs" and ys: "sectionsAt nd key = Some ys"
    by (auto simp: editedAt_def split: option.splits)
  from assms l xs ys have
    other: "\<And>k. k \<noteq> key \<Longrightarrow> nd k = prev k" and len: "length ys = length xs"
    and rest: "\<And>j. j < length xs \<Longrightarrow> j \<noteq> i \<Longrightarrow> ys ! j = xs ! j"
    and i: "i < length xs" and props: "\<And>n. n \<noteq> f \<Longrightarrow> (ys ! i) n = (xs ! i) n"
    by (auto simp: editedAt_def)
  from assms l ys have "(ys ! i) f \<noteq> None"
    by (auto simp: editedAt_def split: option.splits if_splits)
  then have w: "writeLoc nd l v = nd(key \<mapsto> TArr (ys[i := (ys ! i)(f \<mapsto> PStr v)]))"
    using l ys by (auto simp: assignProp_def)
  have s: "sectionsAt (writeLoc nd l v) key = Some (ys[i := (ys ! i)(f \<mapsto> PStr v)])"
    by (simp add: w sectionsAt_def)
  have "sameExceptAt (SectionField key i f) prev (writeLoc nd l v)"
    unfolding sameExceptAt.simps s xs
    using other len rest i props by (simp add: w)
  then have "sameExceptAt l prev (writeLoc nd l v)" by (simp add: l)
  moreover have "readLoc (writeLoc nd l v) (SectionField key i f) \<noteq> None"
    unfolding readLoc.simps s using i len by simp
  then have "readLoc (writeLoc nd l v) l \<noteq> None" by (simp add: l)
  ultimately show ?thesis using assms by (simp add: editedAt_def)
qed

lemma editedAt_start:
  assumes "readLoc prev l = Some old"
  shows "editedAt l prev prev"
  using assms
  by (cases l) (auto simp: editedAt_def split: option.splits if_splits)

lemma forEachField_editedAt:
  assumes "editedAt l prev nd"
    "\<forall>x\<in>set es. \<exists>lx. locatorOf prev x = Some lx \<and> readLoc prev lx = Some (innerText x)"
  shows "\<exists>nd'. forEachField es (nd, True) = Inr (nd', True) \<and> editedAt l prev nd'"
  using assms
proof (induction es arbitrary: nd)
  case Nil
  then show ?case by simp
next
  case (Cons x es)
  then obtain lx where lx: "locatorOf prev x = Some lx" "readLoc prev lx = Some (innerText x)" by auto
  have loc: "locatorOf nd x = Some lx" using lx(1) editedAt_locatorOf[OF Cons.prems(1)] by simp
  have "\<exists>nd1. fieldStep x (nd, True) = Inr (nd1, True) \<and> editedAt l prev nd1"
  proof (cases "readLoc nd lx = Some (innerText x)")
    case True
    then show ?thesis using loc fieldStep_same Cons.prems(1) by blast
  next
    case False
    then have "lx = l" using editedAt_readLoc_other[OF Cons.prems(1)] lx(2) by metis
    then show ?thesis using False loc fieldStep_differs editedAt_write[OF Cons.prems(1)] by blast
  qed
  then obtain nd1 where s: "fieldStep x (nd, True) = Inr (nd1, True)" "editedAt l prev nd1" by blast
  from Cons.IH[OF s(2)] Cons.prems(2) obtain nd' where
    "forEachField es (nd1, True) = Inr (nd', True)" "editedAt l prev nd'" by auto
  then show ?case using s by simp
qed


text \<open>
  C2, as stated, fails: in the preview of the empty record the user retypes the grade and
  nothing else. Every other span still shows its rendered text, which for an empty field
  is the placeholder; the engine compares it with the stored empty string and stores the
  placeholder: the student name changes as well.
\<close>

theorem handlePreviewEdit_stores_placeholder_counterexample:
  "previewFields initialPlaafpData = Some (spanElements (htmlParts initialPlaafpData))
   \<and> jsonOf initialPlaafpData ''studentName'' = Some (TStr [])
   \<and> storedAfter (retype ''grade'' ''5'' (spanElements (htmlParts initialPlaafpData)))
        (jsonOf initialPlaafpData) ''studentName'' = Some (TStr ''______ (student name)'')"
proof -
  have 1: "jsonOf initialPlaafpData ''studentName'' = Some (TStr [])"
    by (simp add: jsonOf_lookup initialPlaafpData_def)
  have 2: "storedAfter (retype ''grade'' ''5'' (spanElements (htmlParts initialPlaafpData)))
        (jsonOf initialPlaafpData) ''studentName'' = Some (TStr ''______ (student name)'')"
    by (simp add: render_defs step_defs storedAfter_def retype_def jsonOf_lookup initialPlaafpData_def)
  show ?thesis using previewFields_initial 1 2 by (intro conjI)
qed

text \<open>
  C2, amended: when exactly one element of the markup carries a text that differs from
  the string the record stores at the place the element names, and every other element
  carries exactly the string stored at its place, the engine returns a new record in
  which every field other than the one at that place, including every field of every
  other section, is equal to the field of the input record.
\<close>

theorem handlePreviewEdit_frame:
  assumes "locatorOf prev e = Some l" "readLoc prev l = Some old" "old \<noteq> innerText e"
    "\<forall>x\<in>set (es1 @ es2). \<exists>lx. locatorOf prev x = Some lx \<and> readLoc prev lx = Some (innerText x)"
  shows "\<exists>nd. handlePreviewEdit (es1 @ e # es2) prev = Inr (Replaced nd) \<and> sameExceptAt l prev nd"
proof -
  have 1: "forEachField es1 (prev, False) = Inr (prev, False)"
    using assms(4) forEachField_all_same[of es1 prev False] by auto
  have 2: "fieldStep e (prev, False) = Inr (writeLoc prev l (innerText e), True)"
    using assms(1,2,3) fieldStep_differs by auto
  have "editedAt l prev (writeLoc prev l (innerText e))"
    using editedAt_write[OF editedAt_start[OF assms(2)]] .
  then obtain nd where 3: "forEachField es2 (writeLoc prev l (innerText e), True) = Inr (nd, True)"
      "editedAt l prev nd"
    using forEachField_editedAt[of l prev _ es2] assms(4) by auto
  show ?thesis using 1 2 3 by (auto simp: handlePreviewEdit_def forEachField_append editedAt_def)
qed

theorem handlePreviewEdit_frame_witness:
  "locatorOf (jsonOf initialPlaafpData) \<lparr>field = ''grade'', indexStr = None, sectionType = None, innerText = ''5''\<rparr>
      = Some (TopLevelField ''grade'')
   \<and> readLoc (jsonOf initialPlaafpData) (TopLevelField ''grade'') = Some []
   \<and> [] \<noteq> ''5''
   \<and> locatorOf (jsonOf initialPlaafpData) \<lparr>field = ''studentName'', indexStr = None, sectionType = None, innerText = []\<rparr>
      = Some (TopLevelField ''studentName'')
   \<and> readLoc (jsonOf initialPlaafpData) (TopLevelField ''studentName'') = Some []
   \<and> (\<exists>nd. handlePreviewEdit
          ([] @ \<lparr>field = ''grade'', indexStr = None, sectionType = None, innerText = ''5''\<rparr>
            # [\<lparr>field = ''studentName'', indexStr = None, sectionType = None, innerText = []\<rparr>])
          (jsonOf initialPlaafpData) = Inr (Replaced nd)
        \<and> sameExceptAt (TopLevelField ''grade'') (jsonOf initialPlaafpData) nd)"
proof -
  let ?R = "jsonOf initialPlaafpData"
  let ?e = "\<lparr>field = ''grade'', indexStr = None, sectionType = None, innerText = ''5''\<rparr>"
  let ?x = "\<lparr>field = ''studentName'', indexStr = None, sectionType = None, innerText = []\<rparr>"
  have a: "locatorOf ?R ?e = Some (TopLevelField ''grade'')" by (simp add: locatorOf_def)
  have b: "readLoc ?R (TopLevelField ''grade'') = Some []" by (simp add: jsonOf_lookup initialPlaafpData_def)
  have c: "[] \<noteq> innerText ?e" by simp
  have d: "locatorOf ?R ?x = Some (TopLevelField ''studentName'')" by (simp add: locatorOf_def)
  have e: "readLoc ?R (TopLevelField ''studentName'') = Some []" by (simp add: jsonOf_lookup initialPlaafpData_def)
  have f: "\<forall>x\<in>set ([] @ [?x]). \<exists>lx. locatorOf ?R x = Some lx \<and> readLoc ?R lx = Some (innerText x)"
    using d e by simp
  show ?thesis using a b d e handlePreviewEdit_frame[OF a b c f] by simp
qed

section \<open>Every reachable record is well formed\<close>

lemma wellFormedAcademic_initial: "wellFormedAcademic (jsonOfAcademic a)"
  by (simp add: wellFormedAcademic_def academicStringKeys_def holdsString_def jsonOfAcademic_lookup)

lemma wellFormedSummary_initial: "wellFormedSummary (jsonOfSummary p)"
  by (simp add: wellFormedSummary_def summaryStringKeys_def holdsString_def jsonOfSummary_lookup)

lemma wellFormed_jsonOf: "wellFormed (jsonOf d)"
  by (simp add: wellFormed_def topStringKeys_def jsonOf_lookup wellFormedAcademic_initial
      wellFormedSummary_initial)

lemma topStringKeys_not_lists:
  "''academicSections'' \<notin> set topStringKeys" "''performanceSummarySections'' \<notin> set topStringKeys"
  by (simp_all add: topStringKeys_def)

lemma formNames_not_lists:
  "name \<in> set formNames \<Longrightarrow> name \<noteq> ''academicSections'' \<and> name \<noteq> ''performanceSummarySections''"
  by (auto simp: formNames_def)

lemma wellFormed_top_update:
  assumes "wellFormed nd" "name \<noteq> ''academicSections''" "name \<noteq> ''performanceSummarySections''"
  shows "wellFormed (nd(name \<mapsto> TStr v))"
  using assms unfolding wellFormed_def by auto

lemma holdsString_update: "holdsString sec k \<Longrightarrow> holdsString (sec(name \<mapsto> PStr v)) k"
  by (simp add: holdsString_def)

lemma academicStringKeys_not_sources: "''progressDataSources'' \<notin> set academicStringKeys"
  by (simp add: academicStringKeys_def)

lemma wellFormedAcademic_update:
  assumes "wellFormedAcademic sec" "name \<noteq> ''progressDataSources''"
  shows "wellFormedAcademic (sec(name \<mapsto> PStr v))"
  using assms unfolding wellFormedAcademic_def by (auto simp: holdsString_update)

lemma wellFormedSummary_update:
  assumes "wellFormedSummary sec"
  shows "wellFormedSummary (sec(name \<mapsto> PStr v))"
  using assms unfolding wellFormedSummary_def by (auto simp: holdsString_update)

lemma wellFormed_academic_list:
  assumes "wellFormed nd" "\<forall>sec\<in>set secs. wellFormedAcademic sec"
  shows "wellFormed (nd(''academicSections'' \<mapsto> TArr secs))"
  using assms topStringKeys_not_lists unfolding wellFormed_def by auto

lemma wellFormed_summary_list:
  assumes "wellFormed nd" "\<forall>sec\<in>set secs. wellFormedSummary sec"
  shows "wellFormed (nd(''performanceSummarySections'' \<mapsto> TArr secs))"
  using assms topStringKeys_not_lists unfolding wellFormed_def by auto

lemma wellFormed_academicD:
  "wellFormed nd \<Longrightarrow> nd ''academicSections'' = Some (TArr secs) \<Longrightarrow> sec \<in> set secs \<Longrightarrow> wellFormedAcademic sec"
  unfolding wellFormed_def by auto

lemma wellFormed_summaryD:
  "wellFormed nd \<Longrightarrow> nd ''performanceSummarySections'' = Some (TArr secs) \<Longrightarrow> sec \<in> set secs \<Longrightarrow> wellFormedSummary sec"
  unfolding wellFormed_def by auto

lemma set_update_all:
  assumes "\<forall>x\<in>set xs. P x" "P y"
  shows "\<forall>x\<in>set (xs[i := y]). P x"
  using assms set_update_subset_insert[of xs i y] by auto

lemma wellFormed_hasLists: "wellFormed nd \<Longrightarrow> hasLists nd"
  unfolding wellFormed_def hasLists_def by (auto simp: sectionsAt_def)

lemma wellFormed_assign_top:
  assumes "wellFormed nd" "f \<noteq> ''academicSections''" "f \<noteq> ''performanceSummarySections''"
  shows "wellFormed (assignProp nd f (TStr v))"
  using assms wellFormed_top_update by (simp add: assignProp_def)

lemma wellFormedAcademic_assign:
  assumes "wellFormedAcademic sec" "f \<noteq> ''progressDataSources''"
  shows "wellFormedAcademic (assignProp sec f (PStr v))"
  using assms wellFormedAcademic_update by (simp add: assignProp_def)

lemma wellFormedSummary_assign:
  assumes "wellFormedSummary sec"
  shows "wellFormedSummary (assignProp sec f (PStr v))"
  using assms wellFormedSummary_update by (simp add: assignProp_def)

lemma writeLoc_wellFormed:
  assumes "wellFormed nd" "locatorOf nd e = Some l" "\<not> namesList e" "\<not> namesSources e"
  shows "wellFormed (writeLoc nd l v)"
  using locatorOf_Some_cases[OF assms(2)]
proof (elim disjE conjE exE)
  assume a: "field e \<noteq> []" "indexStr e = None" "l = TopLevelField (field e)"
  then have "field e \<noteq> ''academicSections''" "field e \<noteq> ''performanceSummarySections''"
    using assms(3) by (auto simp: namesList_def)
  then show ?thesis using a(3) assms(1) by (simp add: wellFormed_assign_top)
next
  fix s key secs i
  assume a: "field e \<noteq> []" "indexStr e = Some s" "listKey (sectionType e) = Some key"
    "nd key = Some (TArr secs)" "resolveIndex (length secs) (parseInt s) = Some i"
    "l = SectionField key i (field e)"
  have i: "i < length secs" using a(5) by (rule resolveIndex_lt)
  have f: "field e \<noteq> ''progressDataSources''" using assms(4) a(2) by (simp add: namesSources_def)
  have w: "writeLoc nd l v = nd(key \<mapsto> TArr (secs[i := assignProp (secs ! i) (field e) (PStr v)]))"
    using a(4,6) by (simp add: sectionsAt_def)
  from listKey_cases[OF a(3)] show ?thesis
  proof
    assume k: "key = ''academicSections''"
    have all: "\<forall>sec\<in>set secs. wellFormedAcademic sec"
      using assms(1) a(4) k wellFormed_academicD by blast
    then have "wellFormedAcademic (assignProp (secs ! i) (field e) (PStr v))"
      using i f by (simp add: wellFormedAcademic_assign)
    then have "\<forall>sec\<in>set (secs[i := assignProp (secs ! i) (field e) (PStr v)]). wellFormedAcademic sec"
      using all by (rule set_update_all[rotated])
    then show ?thesis unfolding w k using assms(1) by (rule wellFormed_academic_list[rotated])
  next
    assume k: "key = ''performanceSummarySections''"
    have all: "\<forall>sec\<in>set secs. wellFormedSummary sec"
      using assms(1) a(4) k wellFormed_summaryD by blast
    then have "wellFormedSummary (assignProp (secs ! i) (field e) (PStr v))"
      using i by (simp add: wellFormedSummary_assign)
    then have "\<forall>sec\<in>set (secs[i := assignProp (secs ! i) (field e) (PStr v)]). wellFormedSummary sec"
      using all by (rule set_update_all[rotated])
    then show ?thesis unfolding w k using assms(1) by (rule wellFormed_summary_list[rotated])
  qed
qed

lemma fieldStep_wellFormed:
  assumes "wellFormed nd" "\<not> namesList e" "\<not> namesSources e" "fieldStep e (nd, ch) = Inr (nd', ch')"
  shows "wellFormed nd'"
proof (cases "locatorOf nd e")
  case None
  then show ?thesis using assms fieldStep_unlocated[OF wellFormed_hasLists[OF assms(1)]] by simp
next
  case (Some l)
  show ?thesis
  proof (cases "readLoc nd l = Some (innerText e)")
    case True
    then show ?thesis using Some assms fieldStep_same[OF Some True, of ch] by simp
  next
    case False
    then show ?thesis
      using assms(4) fieldStep_differs[OF Some False, of ch]
        writeLoc_wellFormed[OF assms(1) Some assms(2,3), of "innerText e"]
      by auto
  qed
qed

lemma forEachField_wellFormed:
  assumes "wellFormed nd" "\<forall>e\<in>set es. \<not> namesList e \<and> \<not> namesSources e"
    "forEachField es (nd, ch) = Inr (nd', ch')"
  shows "wellFormed nd'"
  using assms
proof (induction es arbitrary: nd ch)
  case Nil
  then show ?case by simp
next
  case (Cons e es)
  from Cons.prems(3) obtain nd1 ch1 where s: "fieldStep e (nd, ch) = Inr (nd1, ch1)"
      "forEachField es (nd1, ch1) = Inr (nd', ch')"
    by (cases "fieldStep e (nd, ch)") auto
  have "wellFormed nd1" using fieldStep_wellFormed[OF Cons.prems(1) _ _ s(1)] Cons.prems(2) by simp
  then show ?case using Cons.IH[OF _ _ s(2)] Cons.prems(2) by simp
qed

lemma handlePreviewEdit_wellFormed:
  assumes "wellFormed prev" "\<forall>e\<in>set elems. \<not> namesList e \<and> \<not> namesSources e"
    "handlePreviewEdit elems prev = Inr r"
  shows "wellFormed (recordAfter prev r)"
proof -
  from assms(3) obtain nd ch where s: "forEachField elems (prev, False) = Inr (nd, ch)"
      "r = (if ch then Replaced nd else Unchanged)"
    by (cases "forEachField elems (prev, False)") (auto simp: handlePreviewEdit_def)
  have "wellFormed nd" using forEachField_wellFormed[OF assms(1,2) s(1)] .
  then show ?thesis using s(2) assms(1) by simp
qed

lemma changeSection_academic_wellFormed:
  assumes "wellFormed s" "name \<in> set academicFormNames" "handleAcademicChange i name v s = Some s'"
  shows "wellFormed s'"
proof -
  from assms(3) obtain secs where a: "s ''academicSections'' = Some (TArr secs)" "i < length secs"
      "s' = s(''academicSections'' \<mapsto> TArr (secs[i := (secs ! i)(name \<mapsto> PStr v)]))"
    by (auto simp: handleAcademicChange_def changeSection_def split: option.splits tval.splits if_splits)
  have n: "name \<noteq> ''progressDataSources''" using assms(2) by (auto simp: academicFormNames_def)
  have all: "\<forall>sec\<in>set secs. wellFormedAcademic sec" using assms(1) a(1) wellFormed_academicD by blast
  then have "wellFormedAcademic ((secs ! i)(name \<mapsto> PStr v))"
    using a(2) n by (simp add: wellFormedAcademic_update)
  then have "\<forall>sec\<in>set (secs[i := (secs ! i)(name \<mapsto> PStr v)]). wellFormedAcademic sec"
    using all by (rule set_update_all[rotated])
  then show ?thesis unfolding a(3) using assms(1) by (rule wellFormed_academic_list[rotated])
qed

lemma changeSection_summary_wellFormed:
  assumes "wellFormed s" "handlePerformanceSummaryChange i name v s = Some s'"
  shows "wellFormed s'"
proof -
  from assms(2) obtain secs where a: "s ''performanceSummarySections'' = Some (TArr secs)" "i < length secs"
      "s' = s(''performanceSummarySections'' \<mapsto> TArr (secs[i := (secs ! i)(name \<mapsto> PStr v)]))"
    by (auto simp: handlePerformanceSummaryChange_def changeSection_def split: option.splits tval.splits if_splits)
  have all: "\<forall>sec\<in>set secs. wellFormedSummary sec" using assms(1) a(1) wellFormed_summaryD by blast
  then have "wellFormedSummary ((secs ! i)(name \<mapsto> PStr v))"
    using a(2) by (simp add: wellFormedSummary_update)
  then have "\<forall>sec\<in>set (secs[i := (secs ! i)(name \<mapsto> PStr v)]). wellFormedSummary sec"
    using all by (rule set_update_all[rotated])
  then show ?thesis unfolding a(3) using assms(1) by (rule wellFormed_summary_list[rotated])
qed

lemma addAcademic_wellFormed:
  assumes "wellFormed s" "handleAddAcademicSection now s = Some s'"
  shows "wellFormed s'"
proof -
  from assms(2) obtain secs where a: "s ''academicSections'' = Some (TArr secs)"
      "s' = s(''academicSections'' \<mapsto> TArr (secs @ [jsonOfAcademic (initialAcademicSection (numToString now))]))"
    by (auto simp: handleAddAcademicSection_def split: option.splits tval.splits)
  have "\<forall>sec\<in>set secs. wellFormedAcademic sec" using assms(1) a(1) wellFormed_academicD by blast
  then have "\<forall>sec\<in>set (secs @ [jsonOfAcademic (initialAcademicSection (numToString now))]). wellFormedAcademic sec"
    by (simp add: wellFormedAcademic_initial)
  then show ?thesis unfolding a(2) using assms(1) by (rule wellFormed_academic_list[rotated])
qed

lemma addSummary_wellFormed:
  assumes "wellFormed s" "handleAddPerformanceSummarySection now s = Some s'"
  shows "wellFormed s'"
proof -
  from assms(2) obtain secs where a: "s ''performanceSummarySections'' = Some (TArr secs)"
      "s' = s(''performanceSummarySections'' \<mapsto> TArr (secs @ [jsonOfSummary (initialPerformanceSummarySection (numToString now))]))"
    by (auto simp: handleAddPerformanceSummarySection_def split: option.splits tval.splits)
  have "\<forall>sec\<in>set secs. wellFormedSummary sec" using assms(1) a(1) wellFormed_summaryD by blast
  then have "\<forall>sec\<in>set (secs @ [jsonOfSummary (initialPerformanceSummarySection (numToString now))]). wellFormedSummary sec"
    by (simp add: wellFormedSummary_initial)
  then show ?thesis unfolding a(2) using assms(1) by (rule wellFormed_summary_list[rotated])
qed

lemma natToString_1700000000000: "numToString 1700000000000 = ''1700000000000''"
  by (simp add: numToString_def natToString.simps digitChar_def)


text \<open>
  C8, as stated, fails: the section that \<open>handleAddAcademicSection\<close> appends holds, under
  \<open>progressDataSources\<close>, an array and not a string.
\<close>

theorem progressDataSources_counterexample:
  "handleAddAcademicSection 1700000000000 (jsonOf initialPlaafpData)
     = Some ((jsonOf initialPlaafpData)(''academicSections'' \<mapsto>
         TArr [jsonOfAcademic (initialAcademicSection ''1700000000000'')]))
   \<and> reachable ((jsonOf initialPlaafpData)(''academicSections'' \<mapsto>
         TArr [jsonOfAcademic (initialAcademicSection ''1700000000000'')]))
   \<and> jsonOfAcademic (initialAcademicSection ''1700000000000'') ''progressDataSources'' = Some (PArr [])"
proof -
  have a: "handleAddAcademicSection 1700000000000 (jsonOf initialPlaafpData)
     = Some ((jsonOf initialPlaafpData)(''academicSections'' \<mapsto>
         TArr [jsonOfAcademic (initialAcademicSection ''1700000000000'')]))"
    by (simp add: handleAddAcademicSection_def jsonOf_lookup initialPlaafpData_def natToString_1700000000000)
  have b: "reachable ((jsonOf initialPlaafpData)(''academicSections'' \<mapsto>
         TArr [jsonOfAcademic (initialAcademicSection ''1700000000000'')]))"
    using reachable.addAcademic[OF reachable.initial a] .
  have c: "jsonOfAcademic (initialAcademicSection ''1700000000000'') ''progressDataSources'' = Some (PArr [])"
    by (simp add: jsonOfAcademic_lookup initialAcademicSection_def)
  show ?thesis using a b c by simp
qed


text \<open>
  C8, amended: in every record the application reaches from the empty record (by the
  inputs of the form, by appending sections, and by preview edits whose elements name
  neither a list of the document nor \<open>progressDataSources\<close>), every key the interfaces
  declare is present; each holds a string, except the two lists of sections, which hold
  arrays of sections, and \<open>progressDataSources\<close> of an academic section, which holds an
  array of strings.
\<close>

theorem reachable_wellFormed: "reachable s \<Longrightarrow> wellFormed s"
proof (induction rule: reachable.induct)
  case initial
  show ?case by (rule wellFormed_jsonOf)
next
  case (change s name v)
  then show ?case
    unfolding handleChange_def using formNames_not_lists[of name] wellFormed_top_update by blast
next
  case (academicChange s name i v s')
  then show ?case using changeSection_academic_wellFormed by blast
next
  case (summaryChange s name i v s')
  then show ?case using changeSection_summary_wellFormed by blast
next
  case (addAcademic s now s')
  then show ?case using addAcademic_wellFormed by blast
next
  case (addSummary s now s')
  then show ?case using addSummary_wellFormed by blast
next
  case (previewEdit s elems r)
  then show ?case using handlePreviewEdit_wellFormed by blast
qed


theorem reachable_wellFormed_witness:
  "reachable (handleChange ''grade'' ''5'' (jsonOf initialPlaafpData))
   \<and> wellFormed (handleChange ''grade'' ''5'' (jsonOf initialPlaafpData))"
proof -
  have r: "reachable (handleChange ''grade'' ''5'' (jsonOf initialPlaafpData))"
    by (rule reachable.change[OF reachable.initial]) (simp add: formNames_def)
  show ?thesis using r reachable_wellFormed[OF r] by simp
qed

section \<open>Appending two sections\<close>

lemma sectionsAt_update_key: "sectionsAt (nd(key \<mapsto> TArr xs)) key = Some xs"
  by (simp add: sectionsAt_def)

lemma distinct_two_more:
  "distinct (xs @ [a, b]) \<longleftrightarrow> distinct xs \<and> a \<noteq> b \<and> a \<notin> set xs \<and> b \<notin> set xs"
  by auto

lemma numToString_1700000000001: "numToString 1700000000001 = ''1700000000001''"
  by (simp add: numToString_def natToString.simps digitChar_def)


text \<open>
  C3, as stated, fails: the identifier is the decimal string of the clock reading, and two
  appends that read the same millisecond give two sections with the same identifier.
\<close>

theorem handleAdd_same_reading_counterexample:
  "handleAddAcademicSection 1700000000000 (jsonOf initialPlaafpData)
     = Some ((jsonOf initialPlaafpData)(''academicSections'' \<mapsto>
         TArr [jsonOfAcademic (initialAcademicSection ''1700000000000'')]))
   \<and> handleAddAcademicSection 1700000000000
       ((jsonOf initialPlaafpData)(''academicSections'' \<mapsto>
         TArr [jsonOfAcademic (initialAcademicSection ''1700000000000'')]))
     = Some ((jsonOf initialPlaafpData)(''academicSections'' \<mapsto>
         TArr [jsonOfAcademic (initialAcademicSection ''1700000000000''),
               jsonOfAcademic (initialAcademicSection ''1700000000000'')]))
   \<and> sectionIds
        ((jsonOf initialPlaafpData)(''academicSections'' \<mapsto>
         TArr [jsonOfAcademic (initialAcademicSection ''1700000000000''),
               jsonOfAcademic (initialAcademicSection ''1700000000000'')]))
        ''academicSections''
     = Some [Some (PStr ''1700000000000''), Some (PStr ''1700000000000'')]"
  by (simp add: handleAddAcademicSection_def jsonOf_lookup initialPlaafpData_def natToString_1700000000000
      sectionIds_def sectionsAt_def jsonOfAcademic_lookup initialAcademicSection_def)


text \<open>
  C3, amended: for every record whose list holds an array, appending two sections in
  sequence (academic, or performance-summary) yields the list with the two new sections
  at its end, in append order, the prior sections unchanged; the two new identifiers are
  the decimal strings of the two clock readings; and the identifiers of the new list are
  pairwise distinct exactly when those of the old list were, the two readings differ and
  neither string is an identifier already in the list.
\<close>

theorem handleAdd_twice:
  assumes "sectionsAt prev ''academicSections'' = Some acs"
    "sectionsAt prev ''performanceSummarySections'' = Some pss"
  shows "(\<exists>s1 s2. handleAddAcademicSection t1 prev = Some s1 \<and> handleAddAcademicSection t2 s1 = Some s2
            \<and> sectionsAt s2 ''academicSections''
                = Some (acs @ [jsonOfAcademic (initialAcademicSection (numToString t1)),
                               jsonOfAcademic (initialAcademicSection (numToString t2))])
            \<and> sectionIds s2 ''academicSections''
                = Some (map (\<lambda>sec. sec ''id'') acs @ [Some (PStr (numToString t1)), Some (PStr (numToString t2))])
            \<and> (distinctIds s2 ''academicSections'' \<longleftrightarrow>
                 distinct (map (\<lambda>sec. sec ''id'') acs) \<and> t1 \<noteq> t2
                 \<and> Some (PStr (numToString t1)) \<notin> set (map (\<lambda>sec. sec ''id'') acs)
                 \<and> Some (PStr (numToString t2)) \<notin> set (map (\<lambda>sec. sec ''id'') acs)))
       \<and> (\<exists>s1 s2. handleAddPerformanceSummarySection t1 prev = Some s1
            \<and> handleAddPerformanceSummarySection t2 s1 = Some s2
            \<and> sectionsAt s2 ''performanceSummarySections''
                = Some (pss @ [jsonOfSummary (initialPerformanceSummarySection (numToString t1)),
                               jsonOfSummary (initialPerformanceSummarySection (numToString t2))])
            \<and> sectionIds s2 ''performanceSummarySections''
                = Some (map (\<lambda>sec. sec ''id'') pss @ [Some (PStr (numToString t1)), Some (PStr (numToString t2))])
            \<and> (distinctIds s2 ''performanceSummarySections'' \<longleftrightarrow>
                 distinct (map (\<lambda>sec. sec ''id'') pss) \<and> t1 \<noteq> t2
                 \<and> Some (PStr (numToString t1)) \<notin> set (map (\<lambda>sec. sec ''id'') pss)
                 \<and> Some (PStr (numToString t2)) \<notin> set (map (\<lambda>sec. sec ''id'') pss)))"
proof -
  have a: "prev ''academicSections'' = Some (TArr acs)" using assms(1) by (simp add: sectionsAt_Some)
  have p: "prev ''performanceSummarySections'' = Some (TArr pss)" using assms(2) by (simp add: sectionsAt_Some)
  have ida: "\<And>i. jsonOfAcademic (initialAcademicSection i) ''id'' = Some (PStr i)"
    by (simp add: jsonOfAcademic_lookup initialAcademicSection_def)
  have ids: "\<And>i. jsonOfSummary (initialPerformanceSummarySection i) ''id'' = Some (PStr i)"
    by (simp add: jsonOfSummary_lookup initialPerformanceSummarySection_def)
  have 1: "handleAddAcademicSection t1 prev
      = Some (prev(''academicSections'' \<mapsto> TArr (acs @ [jsonOfAcademic (initialAcademicSection (numToString t1))])))"
    using a by (simp add: handleAddAcademicSection_def)
  have 2: "handleAddAcademicSection t2
        (prev(''academicSections'' \<mapsto> TArr (acs @ [jsonOfAcademic (initialAcademicSection (numToString t1))])))
      = Some (prev(''academicSections'' \<mapsto>
          TArr (acs @ [jsonOfAcademic (initialAcademicSection (numToString t1)),
                       jsonOfAcademic (initialAcademicSection (numToString t2))])))"
    by (simp add: handleAddAcademicSection_def)
  have 3: "handleAddPerformanceSummarySection t1 prev
      = Some (prev(''performanceSummarySections'' \<mapsto>
          TArr (pss @ [jsonOfSummary (initialPerformanceSummarySection (numToString t1))])))"
    using p by (simp add: handleAddPerformanceSummarySection_def)
  have 4: "handleAddPerformanceSummarySection t2
        (prev(''performanceSummarySections'' \<mapsto>
          TArr (pss @ [jsonOfSummary (initialPerformanceSummarySection (numToString t1))])))
      = Some (prev(''performanceSummarySections'' \<mapsto>
          TArr (pss @ [jsonOfSummary (initialPerformanceSummarySection (numToString t1)),
                       jsonOfSummary (initialPerformanceSummarySection (numToString t2))])))"
    by (simp add: handleAddPerformanceSummarySection_def)
  have A: "\<exists>s1 s2. handleAddAcademicSection t1 prev = Some s1 \<and> handleAddAcademicSection t2 s1 = Some s2
            \<and> sectionsAt s2 ''academicSections''
                = Some (acs @ [jsonOfAcademic (initialAcademicSection (numToString t1)),
                               jsonOfAcademic (initialAcademicSection (numToString t2))])
            \<and> sectionIds s2 ''academicSections''
                = Some (map (\<lambda>sec. sec ''id'') acs @ [Some (PStr (numToString t1)), Some (PStr (numToString t2))])
            \<and> (distinctIds s2 ''academicSections'' \<longleftrightarrow>
                 distinct (map (\<lambda>sec. sec ''id'') acs) \<and> t1 \<noteq> t2
                 \<and> Some (PStr (numToString t1)) \<notin> set (map (\<lambda>sec. sec ''id'') acs)
                 \<and> Some (PStr (numToString t2)) \<notin> set (map (\<lambda>sec. sec ''id'') acs))"
    apply (rule exI, rule exI, intro conjI)
        apply (rule 1)
       apply (rule 2)
      apply (rule sectionsAt_update_key)
     apply (simp add: sectionIds_def sectionsAt_update_key ida)
    apply (simp only: distinctIds_def sectionIds_def sectionsAt_update_key option.map option.case map_append list.map ida
        distinct_two_more option.inject pval.inject numToString_inj)
    done
  have B: "\<exists>s1 s2. handleAddPerformanceSummarySection t1 prev = Some s1
            \<and> handleAddPerformanceSummarySection t2 s1 = Some s2
            \<and> sectionsAt s2 ''performanceSummarySections''
                = Some (pss @ [jsonOfSummary (initialPerformanceSummarySection (numToString t1)),
                               jsonOfSummary (initialPerformanceSummarySection (numToString t2))])
            \<and> sectionIds s2 ''performanceSummarySections''
                = Some (map (\<lambda>sec. sec ''id'') pss @ [Some (PStr (numToString t1)), Some (PStr (numToString t2))])
            \<and> (distinctIds s2 ''performanceSummarySections'' \<longleftrightarrow>
                 distinct (map (\<lambda>sec. sec ''id'') pss) \<and> t1 \<noteq> t2
                 \<and> Some (PStr (numToString t1)) \<notin> set (map (\<lambda>sec. sec ''id'') pss)
                 \<and> Some (PStr (numToString t2)) \<notin> set (map (\<lambda>sec. sec ''id'') pss))"
    apply (rule exI, rule exI, intro conjI)
        apply (rule 3)
       apply (rule 4)
      apply (rule sectionsAt_update_key)
     apply (simp add: sectionIds_def sectionsAt_update_key ids)
    apply (simp only: distinctIds_def sectionIds_def sectionsAt_update_key option.map option.case map_append list.map ids
        distinct_two_more option.inject pval.inject numToString_inj)
    done
  show ?thesis using A B by (rule conjI)
qed



theorem handleAdd_twice_witness:
  "sectionsAt (jsonOf initialPlaafpData) ''academicSections'' = Some []
   \<and> sectionsAt (jsonOf initialPlaafpData) ''performanceSummarySections'' = Some []
   \<and> (\<exists>s1 s2. handleAddAcademicSection 1700000000000 (jsonOf initialPlaafpData) = Some s1
        \<and> handleAddAcademicSection 1700000000001 s1 = Some s2
        \<and> sectionIds s2 ''academicSections'' = Some [Some (PStr ''1700000000000''), Some (PStr ''1700000000001'')]
        \<and> distinctIds s2 ''academicSections'')
   \<and> (\<exists>s1 s2. handleAddPerformanceSummarySection 1700000000000 (jsonOf initialPlaafpData) = Some s1
        \<and> handleAddPerformanceSummarySection 1700000000001 s1 = Some s2
        \<and> sectionIds s2 ''performanceSummarySections'' = Some [Some (PStr ''1700000000000''), Some (PStr ''1700000000001'')]
        \<and> distinctIds s2 ''performanceSummarySections'')"
proof -
  have a: "sectionsAt (jsonOf initialPlaafpData) ''academicSections'' = Some []"
    by (simp add: sectionsAt_def jsonOf_lookup initialPlaafpData_def)
  have p: "sectionsAt (jsonOf initialPlaafpData) ''performanceSummarySections'' = Some []"
    by (simp add: sectionsAt_def jsonOf_lookup initialPlaafpData_def)
  show ?thesis
    using a p handleAdd_twice[OF a p, of 1700000000000 1700000000001]
    by (simp add: natToString_1700000000000 numToString_1700000000001) blast
qed


section \<open>Escaping\<close>

lemma editableSpan_top:
  "editableSpan fld v None None =
     ''<span class='' @ dq @ ''editable-field'' @ dq @ '' data-field='' @ dq @ fld @ dq @ ''  >'' @ sanitize v @ ''</span>''"
  by (simp add: editableSpan_def)


text \<open>
  C6, evaluated where it fails: the deficit type is interpolated as it is. With the value
  \<open><script>\<close> the third part of the document carries the tag itself, where \<open>sanitize\<close>,
  which every other interpolation of a field goes through, would have escaped it.
\<close>

theorem deficitType_inserted_unescaped:
  "deficitType (initialPlaafpData\<lparr>deficitType := ''<script>''\<rparr>) = ''<script>''
   \<and> partHtml (htmlParts (initialPlaafpData\<lparr>deficitType := ''<script>''\<rparr>) ! 2)
     = ''<p>The student'' @ apostropheBytes @ ''s disability affects their ability to ''
       @ editableSpan ''disabilityImpact'' ''(describe impact on access/progress)'' None None
       @ ''. These deficits are noted as <script> according to cognitive and achievement assessments.</p>''
   \<and> sanitize ''<script>'' = ''&lt;script&gt;''"
  by (simp add: htmlParts_def introParts_def partHtml_def deficitTypeText_def toUpperCase_def
      initialPlaafpData_def fill_def trim_def isWhiteSpace_def sanitize_def)

section \<open>Trimming and filling\<close>















section \<open>The steps of the engine on a record of the declared shape\<close>











































































section \<open>Rendering, reconciling and rendering again\<close>































section \<open>Placeholders and locators of the rendered spans\<close>






















end
